theory Spec2Isabelle
  imports
    Main
    "HOL-Library.Log_Nat"
    "HOL-Library.Product_Lexorder"
    "HOL-Library.Option_ord"
    "HOL-Library.Char_ord"
    "HOL-Library.List_Lexorder"
begin

section \<open>Binary64 arithmetic\<close>

text \<open>
  The percentages of \<^verbatim>\<open>Utils.py\<close> are numpy \<^verbatim>\<open>float64\<close> values. A finite double is
  modelled by the rational number it denotes, and every arithmetic operation is the exact
  operation followed by rounding to the nearest double, ties to even (\<open>fl\<close>). Exponent range
  is not modelled: the values the functions compute lie between \<open>2^-64\<close> and \<open>2^64\<close>,
  far from overflow and from the subnormal range.
\<close>

definition rint :: "rat \<Rightarrow> int" where
  \<comment> \<open>\<^verbatim>\<open>numpy.rint\<close>: round to the nearest integer, halves to the even neighbour\<close>
  "rint x = (let f = \<lfloor>x\<rfloor>; d = x - of_int f in
     if d < 1 / 2 then f else if 1 / 2 < d then f + 1 else if even f then f else f + 1)"

definition exponent :: "rat \<Rightarrow> int" where
  \<comment> \<open>for \<open>0 < x\<close>: the \<open>e\<close> with \<open>2^e \<le> x < 2^(e+1)\<close>\<close>
  "exponent x = (case quotient_of x of (a, b) \<Rightarrow>
     let e = bitlen a - bitlen b in if 2 powi e \<le> x then e else e - 1)"

definition fl :: "rat \<Rightarrow> rat" where
  \<comment> \<open>the nearest number with a 53-bit significand\<close>
  "fl x = (if x = 0 then 0 else
     let u = 2 powi (exponent \<bar>x\<bar> - 52) in of_int (rint (x / u)) * u)"

definition float :: "int \<Rightarrow> rat" where
  \<comment> \<open>conversion of an integer (\<^verbatim>\<open>int64\<close> or Python \<^verbatim>\<open>int\<close>) to \<^verbatim>\<open>float64\<close>\<close>
  "float i = fl (of_int i)"

definition lit :: "rat \<Rightarrow> rat" where
  \<comment> \<open>a decimal literal of the source, such as \<^verbatim>\<open>0.05\<close>\<close>
  "lit q = fl q"

definition fadd :: "rat \<Rightarrow> rat \<Rightarrow> rat" where
  "fadd x y = fl (x + y)"

definition fmul :: "rat \<Rightarrow> rat \<Rightarrow> rat" where
  "fmul x y = fl (x * y)"

definition fdiv :: "rat \<Rightarrow> rat \<Rightarrow> rat" where
  \<comment> \<open>only reached with \<open>y \<noteq> 0\<close>: every division of the source is elementwise over a
      Series that is empty when the divisor is zero\<close>
  "fdiv x y = fl (x / y)"

definition np_round :: "rat \<Rightarrow> nat \<Rightarrow> rat" where
  \<comment> \<open>\<^verbatim>\<open>np.round(x, decimals)\<close> on a double: scale by \<open>10^decimals\<close>, \<^verbatim>\<open>rint\<close>, scale back\<close>
  "np_round x decimals =
     (let f = float (10 ^ decimals) in fdiv (of_int (rint (fmul x f))) f)"


section \<open>Tables\<close>

text \<open>
  A cell of a pandas object: the missing marker, a value of the column's own type that is
  no number (a string, say), an integer or a double. Python compares and hashes an integer
  and a double of the same value as equal (\<^verbatim>\<open>1 == 1.0\<close>), so the hash tables of pandas and
  the sets of Python keep one entry for the two, the one that came first: \<open>hash_key c\<close> is
  the value that the cell \<open>c\<close> counts as. The columns are those of dtype object or of a
  numeric dtype; a column of the dtype \<^verbatim>\<open>category\<close>, which lists values that need not occur
  in it, is not modelled.
\<close>

datatype 'a cell = NaN | ObjV 'a | IntV int | FloatV rat

definition hash_key :: "'a cell \<Rightarrow> 'a cell" where
  "hash_key c =
     (case c of FloatV q \<Rightarrow> if of_int \<lfloor>q\<rfloor> = q then IntV \<lfloor>q\<rfloor> else FloatV q | _ \<Rightarrow> c)"

text \<open>A \<^verbatim>\<open>DataFrame\<close>: the row labels and the named columns, in column order.\<close>

record 'a dataframe =
  index :: "'a cell list"
  columns :: "(string \<times> 'a cell list) list"

datatype error = KeyError string | TypeError | ValueError

definition rectangular :: "'a dataframe \<Rightarrow> bool" where
  \<comment> \<open>what every pandas table satisfies: one entry per row in each column, names distinct\<close>
  "rectangular df \<longleftrightarrow>
     list_all (\<lambda>c. length (snd c) = length (index df)) (columns df) \<and>
     distinct (map fst (columns df))"

definition len :: "'a dataframe \<Rightarrow> nat" where
  "len df = length (index df)"

definition getitem :: "'a dataframe \<Rightarrow> string \<Rightarrow> error + 'a cell list" where
  \<comment> \<open>\<^verbatim>\<open>df[column]\<close>\<close>
  "getitem df column =
     (case map_of (columns df) column of None \<Rightarrow> Inl (KeyError column) | Some xs \<Rightarrow> Inr xs)"

definition dropna :: "'a cell list \<Rightarrow> 'a cell list" where
  "dropna xs = filter (\<lambda>c. c \<noteq> NaN) xs"

fun unique_by :: "('b \<Rightarrow> 'k) \<Rightarrow> 'b list \<Rightarrow> 'b list" where
  \<comment> \<open>what a hash table keeps of a sequence of entries: the first entry of each key, in
      order of first appearance\<close>
  "unique_by f [] = []"
| "unique_by f (x # xs) = x # unique_by f (filter (\<lambda>y. f y \<noteq> f x) xs)"

definition count_by :: "('b \<Rightarrow> 'k) \<Rightarrow> 'b list \<Rightarrow> 'b \<Rightarrow> nat" where
  \<comment> \<open>the number of entries that have the key of \<open>k\<close>\<close>
  "count_by f xs k = length (filter (\<lambda>v. f v = f k) xs)"

definition unique :: "'a cell list \<Rightarrow> 'a cell list" where
  \<comment> \<open>\<^verbatim>\<open>Series.unique()\<close>: one entry of each value in order of first appearance\<close>
  "unique xs = unique_by hash_key xs"

definition sort_values :: "('k \<times> nat) list \<Rightarrow> ('k \<times> nat) list" where
  \<comment> \<open>\<^verbatim>\<open>sort_values(ascending=False)\<close> of a Series of counts. pandas leaves the order of
      equal counts to the sorting kind; here equal counts keep their order.\<close>
  "sort_values s = sort_key (\<lambda>p. - int (snd p)) s"

definition value_counts :: "'a cell list \<Rightarrow> ('a cell \<times> nat) list" where
  \<comment> \<open>\<^verbatim>\<open>Series.value_counts()\<close> with its defaults \<^verbatim>\<open>dropna=True, sort=True\<close>\<close>
  "value_counts col =
     (let vals = dropna col
      in sort_values (map (\<lambda>k. (k, count_by hash_key vals k)) (unique vals)))"

definition arange :: "int \<Rightarrow> int \<Rightarrow> 'a cell list" where
  "arange a b = map IntV [a..b - 1]"

definition DataFrame :: "'a cell list \<Rightarrow> (string \<times> 'a cell list) list \<Rightarrow> error + 'a dataframe" where
  \<comment> \<open>the constructor: arrays whose length differs from the index are refused\<close>
  "DataFrame idx cols =
     (if list_all (\<lambda>c. length (snd c) = length idx) cols
      then Inr \<lparr>index = idx, columns = cols\<rparr> else Inl ValueError)"


section \<open>The store and the canvas\<close>

text \<open>
  Python passes tables by reference. The store is the list of the tables that exist, a
  reference is a position in it, and a new table is appended. The canvas is the sequence of
  calls made to the plotting libraries, with their arguments.
\<close>

type_synonym ref = nat

datatype label = Height nat | Percentage rat

datatype 'a plt =
    Figure "int \<times> int"
  | Bar "'a cell list" "nat list" string nat
  | Text nat rat label string string "string option"
  | Pie "nat list" "'a cell list" "rat list" string int
  | Barplot string string string "'a dataframe"
  | Lineplot string string "'a dataframe" string
  | Title string
  | Xlabel string
  | Ylabel string
  | Xticks int
  | Grid string
  | Grid_dashed
  | Tight_layout
  | Legend string
  | Show

record 'a state =
  heap :: "'a dataframe list"
  canvas :: "'a plt list"

definition deref :: "'a state \<Rightarrow> ref \<Rightarrow> 'a dataframe option" where
  \<comment> \<open>a reference beyond the store stands for an argument that is no table\<close>
  "deref s r = (if r < length (heap s) then Some (heap s ! r) else None)"

definition new :: "'a dataframe \<Rightarrow> 'a state \<Rightarrow> ref \<times> 'a state" where
  "new df s = (length (heap s), s\<lparr>heap := heap s @ [df]\<rparr>)"

definition set_index :: "ref \<Rightarrow> 'a cell list \<Rightarrow> 'a state \<Rightarrow> error + 'a state" where
  \<comment> \<open>\<^verbatim>\<open>table.index = idx\<close>: in place, refused on a length mismatch\<close>
  "set_index r idx s =
     (case deref s r of None \<Rightarrow> Inl TypeError
      | Some d \<Rightarrow>
          if length idx = len d then Inr (s\<lparr>heap := (heap s)[r := d\<lparr>index := idx\<rparr>]\<rparr>)
          else Inl ValueError)"

definition set_columns :: "ref \<Rightarrow> string list \<Rightarrow> 'a state \<Rightarrow> error + 'a state" where
  \<comment> \<open>\<^verbatim>\<open>table.columns = names\<close>: in place, refused on a length mismatch\<close>
  "set_columns r names s =
     (case deref s r of None \<Rightarrow> Inl TypeError
      | Some d \<Rightarrow>
          if length names = length (columns d)
          then Inr (s\<lparr>heap := (heap s)[r := d\<lparr>columns := zip names (map snd (columns d))\<rparr>]\<rparr>)
          else Inl ValueError)"

definition draw :: "'a plt \<Rightarrow> 'a state \<Rightarrow> 'a state" where
  "draw c s = s\<lparr>canvas := canvas s @ [c]\<rparr>"

definition kwarg :: "'b \<Rightarrow> 'b option \<Rightarrow> 'b" where
  \<comment> \<open>a keyword parameter: its default unless the caller supplies a value\<close>
  "kwarg d v = (case v of None \<Rightarrow> d | Some x \<Rightarrow> x)"


section \<open>The functions of \<^verbatim>\<open>Utils.py\<close>\<close>

subsection \<open>\<^verbatim>\<open>create_class_distribution_table\<close>\<close>

definition percentage_of :: "nat \<Rightarrow> nat \<Rightarrow> rat" where
  \<comment> \<open>one entry of \<^verbatim>\<open>np.round(class_distribution / len(df) * 100, 3)\<close>\<close>
  "percentage_of c n = np_round (fmul (fdiv (float (int c)) (float (int n))) (float 100)) 3"

definition create_class_distribution_table ::
  "'a state \<Rightarrow> ref \<Rightarrow> string \<Rightarrow> error + (ref \<times> 'a state)" where
  "create_class_distribution_table s df column_name =
     (case deref s df of None \<Rightarrow> Inl TypeError
      | Some d \<Rightarrow>
     (case getitem d column_name of Inl e \<Rightarrow> Inl e
      | Inr col \<Rightarrow>
     (let class_distribution = sort_values (value_counts col);
          percentages = map (\<lambda>(k, c). (k, percentage_of c (len d))) class_distribution
      in case DataFrame (map fst percentages)
                [(''Attacco'', map fst class_distribution),
                 (''Numero di Esempi'', map (\<lambda>(k, c). IntV (int c)) class_distribution),
                 (''Percentuale'', map (\<lambda>(k, p). FloatV p) percentages)] of
           Inl e \<Rightarrow> Inl e
         | Inr t \<Rightarrow>
     (case new t s of (table, s1) \<Rightarrow>
     (case deref s1 table of None \<Rightarrow> Inl TypeError
      | Some t1 \<Rightarrow>
     (case set_index table (arange 1 (int (len t1) + 1)) s1 of Inl e \<Rightarrow> Inl e
      | Inr s2 \<Rightarrow> Inr (table, s2)))))))"

text \<open>The table the function returns for a column \<open>col\<close> of a table of \<open>n\<close> rows.\<close>

definition distribution_table :: "nat \<Rightarrow> 'a cell list \<Rightarrow> 'a dataframe" where
  "distribution_table n col =
     (let cd = value_counts col
      in \<lparr>index = arange 1 (int (length cd) + 1),
          columns = [(''Attacco'', map fst cd),
                     (''Numero di Esempi'', map (\<lambda>(k, c). IntV (int c)) cd),
                     (''Percentuale'', map (\<lambda>(k, c). FloatV (percentage_of c n)) cd)]\<rparr>)"

subsection \<open>\<^verbatim>\<open>find_unique_values\<close>\<close>

text \<open>
  A Python \<^verbatim>\<open>set\<close> is kept as a list with one entry of each value; the list that
  \<^verbatim>\<open>unique()\<close> returns is one. The order in which \<^verbatim>\<open>list(...)\<close> enumerates a set is not
  fixed by Python; the model enumerates in order of first appearance, and no statement
  below depends on that order. The missing marker is one object, as \<^verbatim>\<open>None\<close> and \<^verbatim>\<open>np.nan\<close>
  are in a column of dtype object, so that a set holds it at most once and two sets can
  share it. The missing entries of a column of floats are not of this kind: the statements
  on \<^verbatim>\<open>find_unique_values\<close> leave out the pairs of columns that both have a missing entry.
\<close>

definition set_difference :: "'a cell list \<Rightarrow> 'a cell list \<Rightarrow> 'a cell list" where
  \<comment> \<open>\<^verbatim>\<open>xs - ys\<close> on sets: the entries of \<open>xs\<close> that equal no entry of \<open>ys\<close>\<close>
  "set_difference xs ys = filter (\<lambda>v. hash_key v \<notin> hash_key ` set ys) xs"

definition single_column :: "'a cell list \<Rightarrow> string \<Rightarrow> 'a dataframe" where
  \<comment> \<open>\<^verbatim>\<open>pd.DataFrame(values, columns=[name])\<close>: one column under the default row labels\<close>
  "single_column vals name = \<lparr>index = arange 0 (int (length vals)), columns = [(name, vals)]\<rparr>"

definition find_unique_values ::
  "'a state \<Rightarrow> ref \<Rightarrow> ref \<Rightarrow> string \<Rightarrow> string option \<Rightarrow> string option \<Rightarrow>
   error + ((ref \<times> ref) \<times> 'a state)" where
  "find_unique_values s df1 df2 column_name df1_name df2_name =
     (let df1_name = kwarg ''First Dataset'' df1_name;
          df2_name = kwarg ''Second Dataset'' df2_name
      in case deref s df1 of None \<Rightarrow> Inl TypeError
      | Some d1 \<Rightarrow>
     (case getitem d1 column_name of Inl e \<Rightarrow> Inl e
      | Inr col1 \<Rightarrow>
     (case deref s df2 of None \<Rightarrow> Inl TypeError
      | Some d2 \<Rightarrow>
     (case getitem d2 column_name of Inl e \<Rightarrow> Inl e
      | Inr col2 \<Rightarrow>
     (let unique_values_df1 = unique col1;
          unique_values_df2 = unique col2;
          values_only_in_df1 = set_difference unique_values_df1 unique_values_df2;
          values_only_in_df2 = set_difference unique_values_df2 unique_values_df1
      in case new (single_column values_only_in_df1 (''Valori unici in '' @ df1_name)) s of
           (df1_exclusive_values, s1) \<Rightarrow>
         (case new (single_column values_only_in_df2 (''Valori unici in '' @ df2_name)) s1 of
           (df2_exclusive_values, s2) \<Rightarrow>
            Inr ((df1_exclusive_values, df2_exclusive_values), s2)))))))"

subsection \<open>\<^verbatim>\<open>plot_class_distribution\<close>\<close>

definition annotate :: "nat \<Rightarrow> 'a state \<Rightarrow> nat \<times> nat \<times> rat \<Rightarrow> 'a state" where
  \<comment> \<open>the body of the loop over \<^verbatim>\<open>zip(bars, percentages)\<close>: two texts on one bar\<close>
  "annotate total_observations s b =
     (case b of (bar, height, percentage) \<Rightarrow>
        draw (Text bar (fdiv (float (int height)) (float 2)) (Percentage percentage)
                ''center'' ''center'' (Some ''white''))
          (draw (Text bar
                   (fadd (float (int height))
                      (fmul (lit (3 / 100)) (float (int total_observations))))
                   (Height height) ''center'' ''bottom'' None) s))"

definition plot_class_distribution ::
  "'a state \<Rightarrow> ref \<Rightarrow> string \<Rightarrow> string \<Rightarrow> string \<Rightarrow> string \<Rightarrow>
   (int \<times> int) option \<Rightarrow> string option \<Rightarrow> int option \<Rightarrow> error + 'a state" where
  "plot_class_distribution s df column title xlabel ylabel figsize color_map rotation =
     (let figsize = kwarg (12, 7) figsize;
          color_map = kwarg ''jet'' color_map;
          rotation = kwarg 45 rotation
      in case deref s df of None \<Rightarrow> Inl TypeError
      | Some d \<Rightarrow>
     (case getitem d column of Inl e \<Rightarrow> Inl e
      | Inr col \<Rightarrow>
     (let class_distribution = value_counts col;
          total_observations = sum_list (map snd class_distribution);
          percentages = map (\<lambda>(k, c).
              fmul (fdiv (float (int c)) (float (int total_observations))) (float 100))
            class_distribution;
          s1 = draw (Figure figsize) s;
          s2 = draw (Bar (map fst class_distribution) (map snd class_distribution)
                  color_map (length class_distribution)) s1;
          s3 = foldl (annotate total_observations) s2
                 (zip [0..<length class_distribution]
                    (zip (map snd class_distribution) percentages));
          s4 = draw (Title title) s3;
          s5 = draw (Xlabel xlabel) s4;
          s6 = draw (Ylabel ylabel) s5;
          s7 = draw (Xticks rotation) s6;
          s8 = draw (Grid ''y'') s7;
          s9 = draw Tight_layout s8
      in Inr (draw Show s9))))"

subsection \<open>\<^verbatim>\<open>plot_pie_chart_distribution\<close>\<close>

definition plot_pie_chart_distribution ::
  "'a state \<Rightarrow> ref \<Rightarrow> string \<Rightarrow> string \<Rightarrow> (int \<times> int) option \<Rightarrow> rat option \<Rightarrow>
   error + 'a state" where
  "plot_pie_chart_distribution s df column title figsize explode_threshold =
     (let figsize = kwarg (10, 8) figsize;
          explode_threshold = kwarg (lit (5 / 100)) explode_threshold
      in case deref s df of None \<Rightarrow> Inl TypeError
      | Some d \<Rightarrow>
     (case getitem d column of Inl e \<Rightarrow> Inl e
      | Inr col \<Rightarrow>
     (let class_distribution = value_counts col;
          total = sum_list (map snd class_distribution);
          explode_values = map (\<lambda>(k, count).
              if float (int count) < fmul (float (int total)) explode_threshold
              then lit (1 / 10) else 0)
            class_distribution;
          s1 = draw (Figure figsize) s;
          s2 = draw (Pie (map snd class_distribution) (map fst class_distribution)
                  explode_values ''%1.1f%%'' 140) s1;
          s3 = draw (Title title) s2
      in Inr (draw Show s3))))"

subsection \<open>\<^verbatim>\<open>plot_grouped_bar\<close>\<close>

definition cell_key :: "'a cell \<Rightarrow> nat \<times> rat \<times> 'a option" where
  \<comment> \<open>the order in which pandas sorts group keys: numbers, then other values\<close>
  "cell_key c = (case c of
       IntV i \<Rightarrow> (0, of_int i, None)
     | FloatV q \<Rightarrow> (0, q, None)
     | ObjV a \<Rightarrow> (1, 0, Some a)
     | NaN \<Rightarrow> (2, 0, None))"

definition groupby_size ::
  "('a::linorder) cell list \<Rightarrow> 'a cell list \<Rightarrow> (('a cell \<times> 'a cell) \<times> nat) list" where
  \<comment> \<open>\<^verbatim>\<open>df.groupby([category, sub_category]).size()\<close>: rows with a missing key are
      dropped, the groups come in key order\<close>
  "groupby_size xs ys =
     (let rows = filter (\<lambda>(x, y). x \<noteq> NaN \<and> y \<noteq> NaN) (zip xs ys);
          key = (\<lambda>(x, y). (hash_key x, hash_key y))
      in map (\<lambda>k. (k, count_by key rows k))
           (sort_key (\<lambda>(x, y). (cell_key x, cell_key y)) (unique_by key rows)))"

definition grouped_frame ::
  "string \<Rightarrow> string \<Rightarrow> string \<Rightarrow> (('a cell \<times> 'a cell) \<times> nat) list \<Rightarrow> 'a dataframe" where
  \<comment> \<open>\<^verbatim>\<open>reset_index(name=count)\<close> followed by
      \<^verbatim>\<open>sort_values(by=count, ascending=False)\<close>: the rows keep their labels\<close>
  "grouped_frame category sub_category count sizes =
     (let rows = sort_key (\<lambda>(i, k, n). - int n) (zip (arange 0 (int (length sizes))) sizes)
      in \<lparr>index = map (\<lambda>(i, k, n). i) rows,
          columns = [(category, map (\<lambda>(i, k, n). fst k) rows),
                     (sub_category, map (\<lambda>(i, k, n). snd k) rows),
                     (count, map (\<lambda>(i, k, n). IntV (int n)) rows)]\<rparr>)"

definition plot_grouped_bar ::
  "('a::linorder) state \<Rightarrow> ref \<Rightarrow> string \<Rightarrow> string \<Rightarrow> string \<Rightarrow> string \<Rightarrow> string \<Rightarrow> string \<Rightarrow>
   (int \<times> int) option \<Rightarrow> int option \<Rightarrow> error + 'a state" where
  "plot_grouped_bar s df category sub_category count title xlabel ylabel figsize rotation =
     (let figsize = kwarg (15, 7) figsize;
          rotation = kwarg 45 rotation
      in case deref s df of None \<Rightarrow> Inl TypeError
      | Some d \<Rightarrow>
     (case getitem d category of Inl e \<Rightarrow> Inl e
      | Inr xs \<Rightarrow>
     (case getitem d sub_category of Inl e \<Rightarrow> Inl e
      | Inr ys \<Rightarrow>
         if \<not> distinct [category, sub_category, count] then Inl ValueError
         else
     (let grouped_data = grouped_frame category sub_category count (groupby_size xs ys);
          s1 = draw (Figure figsize) s;
          s2 = draw (Barplot category count sub_category grouped_data) s1;
          s3 = draw (Title title) s2;
          s4 = draw (Xlabel xlabel) s3;
          s5 = draw (Ylabel ylabel) s4;
          s6 = draw (Xticks rotation) s5;
          s7 = draw Tight_layout s6;
          s8 = draw (Legend sub_category) s7
      in Inr (draw Show s8)))))"

subsection \<open>\<^verbatim>\<open>plot_line_distribution\<close>\<close>

definition reset_index :: "string \<Rightarrow> ('a cell \<times> nat) list \<Rightarrow> 'a dataframe" where
  \<comment> \<open>\<^verbatim>\<open>Series.reset_index()\<close> of the counts of \<open>column\<close>: a table of the categories and
      their counts under the default row labels. Its two column names are replaced by the
      caller on the next line.\<close>
  "reset_index column counts =
     \<lparr>index = arange 0 (int (length counts)),
      columns = [(if column = ''index'' then ''level_0'' else ''index'', map fst counts),
                 (column, map (\<lambda>(k, c). IntV (int c)) counts)]\<rparr>"

definition truthy :: "string option \<Rightarrow> bool" where
  \<comment> \<open>\<^verbatim>\<open>if title:\<close> on \<^verbatim>\<open>None\<close> or a string\<close>
  "truthy v = (case v of None \<Rightarrow> False | Some t \<Rightarrow> t \<noteq> [])"

definition plot_line_distribution ::
  "'a state \<Rightarrow> ref \<Rightarrow> string \<Rightarrow> (int \<times> int) option \<Rightarrow> int option \<Rightarrow> bool option \<Rightarrow>
   string option \<Rightarrow> string option \<Rightarrow> string option \<Rightarrow> error + 'a state" where
  "plot_line_distribution s df column figsize rotation grid title xlabel ylabel =
     (let figsize = kwarg (15, 7) figsize;
          rotation = kwarg 90 rotation;
          grid = kwarg True grid;
          ylabel = kwarg ''Numero di Osservazioni'' ylabel
      in case deref s df of None \<Rightarrow> Inl TypeError
      | Some d \<Rightarrow>
     (case getitem d column of Inl e \<Rightarrow> Inl e
      | Inr col \<Rightarrow>
     (case new (reset_index column (value_counts col)) s of (distribution, s0) \<Rightarrow>
     (case set_columns distribution [column, ''Count''] s0 of Inl e \<Rightarrow> Inl e
      | Inr s1 \<Rightarrow>
     (case deref s1 distribution of None \<Rightarrow> Inl TypeError
      | Some data \<Rightarrow>
     (let s2 = draw (Figure figsize) s1;
          s3 = draw (Lineplot column ''Count'' data ''o'') s2;
          s4 = draw (Xticks rotation) s3;
          s5 = (if truthy title then draw (Title (the title)) s4 else s4);
          s6 = (if truthy xlabel then draw (Xlabel (the xlabel)) s5 else s5);
          s7 = draw (Ylabel ylabel) s6;
          s8 = (if grid then draw Grid_dashed s7 else s7);
          s9 = draw Tight_layout s8
      in Inr (draw Show s9)))))))"


section \<open>Example tables\<close>

definition attack_table :: "'a cell list \<Rightarrow> 'a dataframe" where
  \<comment> \<open>a table whose only column, \<^verbatim>\<open>attack_type\<close>, holds the given entries\<close>
  "attack_table col = \<lparr>index = arange 0 (int (length col)), columns = [(''attack_type'', col)]\<rparr>"


definition scenario_column :: "string cell list" where
  \<comment> \<open>the column of the scenario: \<^verbatim>\<open>["dos", "dos", "probe", "dos"]\<close>\<close>
  "scenario_column = [ObjV ''dos'', ObjV ''dos'', ObjV ''probe'', ObjV ''dos'']"

definition store_of :: "'a dataframe \<Rightarrow> 'a state" where
  \<comment> \<open>a store that holds one table, at reference 0, and an empty canvas\<close>
  "store_of T = \<lparr>heap = [T], canvas = []\<rparr>"

definition distinct_column :: "nat cell list" where
  \<comment> \<open>600 entries: 599 different values and one missing entry\<close>
  "distinct_column = map ObjV [0..<599] @ [NaN]"

definition x_table :: "'a cell list \<Rightarrow> 'a dataframe" where
  \<comment> \<open>a table whose only column, \<^verbatim>\<open>x\<close>, holds the given entries\<close>
  "x_table col = \<lparr>index = arange 0 (int (length col)), columns = [(''x'', col)]\<rparr>"

definition abc_store :: "string state" where
  \<comment> \<open>the two tables of the scenario, with the columns \<^verbatim>\<open>a, b, c\<close> and \<^verbatim>\<open>b, c, d\<close>\<close>
  "abc_store =
     \<lparr>heap = [x_table [ObjV ''a'', ObjV ''b'', ObjV ''c''],
              x_table [ObjV ''b'', ObjV ''c'', ObjV ''d'']],
      canvas = []\<rparr>"



definition flows_table :: "string dataframe" where
  \<comment> \<open>three rows with a protocol and an attack type\<close>
  "flows_table =
     \<lparr>index = arange 0 3,
      columns = [(''protocol_type'', [ObjV ''tcp'', ObjV ''udp'', ObjV ''tcp'']),
                 (''attack_type'', [ObjV ''dos'', ObjV ''probe'', ObjV ''dos''])]\<rparr>"

definition flows_store :: "string state" where
  \<comment> \<open>a store of two such tables and an empty canvas\<close>
  "flows_store = \<lparr>heap = [flows_table, flows_table], canvas = []\<rparr>"

section \<open>Rounding errors\<close>

lemma rint_err: "\<bar>of_int (rint x) - x\<bar> \<le> 1 / 2"
proof -
  have "of_int \<lfloor>x\<rfloor> \<le> x" "x < of_int \<lfloor>x\<rfloor> + 1" by linarith+
  then show ?thesis
    by (auto simp: rint_def Let_def)
qed

lemma exponent_le:
  assumes "0 < x"
  shows "2 powi (exponent x) \<le> x"
proof -
  obtain a b where q: "quotient_of x = (a, b)" by (cases "quotient_of x")
  have b: "0 < b" using q quotient_of_denom_pos by blast
  have x: "x = of_int a / of_int b" using q quotient_of_div by blast
  have a: "0 < a" using assms b x by (simp add: zero_less_divide_iff)
  let ?e = "bitlen a - bitlen b"
  show ?thesis
  proof (cases "2 powi ?e \<le> x")
    case True
    then show ?thesis by (simp add: exponent_def q)
  next
    case False
    have la: "1 \<le> bitlen a" using a by (simp add: bitlen_alt_def)
    have lb: "1 \<le> bitlen b" using b by (simp add: bitlen_alt_def)
    have 1: "(2::rat) ^ nat (bitlen a - 1) \<le> of_int a"
      using bitlen_bounds[OF a] by (metis of_int_le_iff of_int_numeral of_int_power)
    have 2: "of_int b \<le> (2::rat) ^ nat (bitlen b)"
      using bitlen_bounds[OF b] by (metis less_imp_le of_int_le_iff of_int_numeral of_int_power)
    have "?e - 1 = (bitlen a - 1) - bitlen b" by simp
    then have "(2::rat) powi (?e - 1) = 2 powi (bitlen a - 1) / 2 powi (bitlen b)"
      by (simp only: power_int_diff[of "2::rat", simplified])
    also have "\<dots> = 2 ^ nat (bitlen a - 1) / 2 ^ nat (bitlen b)"
      using la lb by (simp add: power_int_def)
    also have "\<dots> \<le> of_int a / of_int b"
      using 1 2 a b by (intro frac_le) auto
    finally have "(2::rat) powi (?e - 1) \<le> of_int a / of_int b" .
    moreover have "exponent x = ?e - 1"
      using False by (simp add: exponent_def q)
    ultimately show ?thesis by (simp only: x[symmetric])
  qed
qed

lemma fl_err: "\<bar>fl x - x\<bar> \<le> \<bar>x\<bar> / 2 ^ 53"
proof (cases "x = 0")
  case True
  then show ?thesis by (simp add: fl_def)
next
  case False
  define u :: rat where "u = 2 powi (exponent \<bar>x\<bar> - 52)"
  have u: "0 < u" by (simp add: u_def)
  have ux: "u * 2 ^ 52 \<le> \<bar>x\<bar>"
  proof -
    have "u = 2 powi (exponent \<bar>x\<bar>) / 2 powi 52"
      unfolding u_def by (rule power_int_diff) simp
    then have "u * 2 ^ 52 = 2 powi (exponent \<bar>x\<bar>)"
      by simp
    then show ?thesis using exponent_le[of "\<bar>x\<bar>"] False by simp
  qed
  have "fl x = of_int (rint (x / u)) * u"
    using False by (simp add: fl_def u_def Let_def)
  then have "fl x - x = u * (of_int (rint (x / u)) - x / u)"
    using u by (simp add: right_diff_distrib)
  then have "\<bar>fl x - x\<bar> = u * \<bar>of_int (rint (x / u)) - x / u\<bar>"
    using u by (simp add: abs_mult)
  also have "\<dots> \<le> u * (1 / 2)"
    using u rint_err[of "x / u"] by (intro mult_left_mono) auto
  also have "\<dots> \<le> \<bar>x\<bar> / 2 ^ 53"
    using ux by simp
  finally show ?thesis .
qed

lemma fl_bound: "\<bar>x\<bar> \<le> B \<Longrightarrow> \<bar>fl x - x\<bar> \<le> B / 2 ^ 53"
proof -
  assume "\<bar>x\<bar> \<le> B"
  then have "\<bar>x\<bar> / 2 ^ 53 \<le> B / 2 ^ 53" by (simp add: divide_right_mono)
  then show ?thesis using fl_err[of x] by linarith
qed

lemma float_100: "float 100 = 100" by code_simp
lemma float_1000: "float 1000 = 1000" by code_simp
lemma fl_1: "fl 1 = 1" by code_simp
lemma fl_100: "fl 100 = 100" by code_simp
lemma np_round_100: "np_round 100 3 = 100" by code_simp

lemma p53: "(2::rat) ^ 53 = 9007199254740992" by simp

lemma float_err: "\<bar>float (int k) - of_nat k\<bar> \<le> of_nat k / 2 ^ 53"
  using fl_err[of "of_nat k"] by (simp add: float_def)

lemma fdiv_float_err:
  assumes "c \<le> n" "0 < n"
  shows "\<bar>fdiv (float (int c)) (float (int n)) - of_nat c / of_nat n\<bar> \<le> 5 / 2 ^ 53"
proof -
  define cc :: rat where "cc = of_nat c"
  define nn :: rat where "nn = of_nat n"
  define C where "C = float (int c)"
  define N where "N = float (int n)"
  have cc: "0 \<le> cc" "cc \<le> nn" and nn: "0 < nn"
    using assms by (simp_all add: cc_def nn_def)
  have hC: "\<bar>C - cc\<bar> \<le> cc / 9007199254740992"
    and hN: "\<bar>N - nn\<bar> \<le> nn / 9007199254740992"
    using float_err[of c] float_err[of n] by (simp_all add: C_def N_def cc_def nn_def)
  have Npos: "0 < N" using hN nn by linarith
  have a1: "\<bar>(C - cc) * nn\<bar> \<le> cc * nn / 9007199254740992"
    using mult_right_mono[OF hC, of nn] nn by (simp add: abs_mult)
  have a2: "\<bar>cc * (N - nn)\<bar> \<le> cc * nn / 9007199254740992"
    using mult_left_mono[OF hN, of cc] cc by (simp add: abs_mult)
  have a3: "C * nn - cc * N = (C - cc) * nn - cc * (N - nn)"
    by (simp add: algebra_simps)
  have "\<bar>C * nn - cc * N\<bar> \<le> \<bar>(C - cc) * nn\<bar> + \<bar>cc * (N - nn)\<bar>"
    unfolding a3 by (rule abs_triangle_ineq4)
  then have a4: "\<bar>C * nn - cc * N\<bar> \<le> 2 * (cc * nn) / 9007199254740992"
    using a1 a2 by linarith
  have a5: "cc * nn \<le> nn * nn" using cc nn by (simp add: mult_right_mono)
  have "9007199254740991 * nn \<le> 9007199254740992 * N" using hN by linarith
  from mult_right_mono[OF this, of nn]
  have a6: "9007199254740991 * (nn * nn) \<le> 9007199254740992 * (N * nn)"
    using nn by (simp add: mult.assoc)
  have a7: "0 \<le> nn * nn" by simp
  have a8: "\<bar>C * nn - cc * N\<bar> \<le> 3 / 9007199254740992 * (N * nn)"
    using a4 a5 a6 a7 by linarith
  have pos: "0 < N * nn" using Npos nn by simp
  have "C / N - cc / nn = (C * nn - cc * N) / (N * nn)"
    using Npos nn by (simp add: field_simps)
  then have "\<bar>C / N - cc / nn\<bar> = \<bar>C * nn - cc * N\<bar> / (N * nn)"
    using pos by (simp add: abs_divide)
  also have "\<dots> \<le> 3 / 9007199254740992"
    using a8 pos by (simp only: pos_divide_le_eq)
  finally have q0: "\<bar>C / N - cc / nn\<bar> \<le> 3 / 9007199254740992" .
  have r1: "0 \<le> cc / nn" "cc / nn \<le> 1" using cc nn by simp_all
  have "\<bar>C / N\<bar> \<le> 2" using q0 r1 by linarith
  from fl_bound[OF this] have "\<bar>fl (C / N) - C / N\<bar> \<le> 2 / 9007199254740992"
    by (simp only: p53)
  then have "\<bar>fl (C / N) - cc / nn\<bar> \<le> 5 / 9007199254740992" using q0 by linarith
  then show ?thesis by (simp only: fdiv_def C_def N_def cc_def nn_def p53)
qed

lemma percentage_of_rounded:
  assumes "c \<le> n" "0 < n"
  shows "\<exists>m::int. percentage_of c n = fl (of_int m / 1000) \<and> \<bar>of_int m\<bar> \<le> (100001::rat) \<and>
           \<bar>of_int m / 1000 - 100 * of_nat c / of_nat n\<bar> \<le> (1 / 2000 + 801 / 2 ^ 53 :: rat)"
proof -
  define r :: rat where "r = of_nat c / of_nat n"
  define q where "q = fdiv (float (int c)) (float (int n))"
  define x2 where "x2 = fl (q * 100)"
  define x3 where "x3 = fl (x2 * 1000)"
  define m where "m = rint x3"
  have r: "0 \<le> r" "r \<le> 1" using assms by (simp_all add: r_def)
  have q: "\<bar>q - r\<bar> \<le> 5 / 2 ^ 53"
    using fdiv_float_err[OF assms] by (simp add: q_def r_def)
  have "\<bar>q * 100\<bar> \<le> 200" using q r unfolding p53 by linarith
  from fl_bound[OF this] have "\<bar>x2 - q * 100\<bar> \<le> 200 / 2 ^ 53"
    by (simp only: x2_def)
  then have x2: "\<bar>x2 - 100 * r\<bar> \<le> 700 / 2 ^ 53"
    using q unfolding p53 by linarith
  have "\<bar>x2 * 1000\<bar> \<le> 101000" using x2 r unfolding p53 by linarith
  from fl_bound[OF this] have "\<bar>x3 - x2 * 1000\<bar> \<le> 101000 / 2 ^ 53"
    by (simp only: x3_def)
  then have x3: "\<bar>x3 - 100000 * r\<bar> \<le> 801000 / 2 ^ 53"
    using x2 unfolding p53 by linarith
  have m: "\<bar>of_int m - x3\<bar> \<le> 1 / 2" unfolding m_def by (rule rint_err)
  have m1: "\<bar>of_int m - 100000 * r\<bar> \<le> 1 / 2 + 801000 / 2 ^ 53"
    using m x3 unfolding p53 by linarith
  have m2: "\<bar>of_int m\<bar> \<le> (100001::rat)" using m1 r unfolding p53 by linarith
  have p: "percentage_of c n = fl (of_int m / 1000)"
    by (simp add: percentage_of_def np_round_def Let_def float_100 float_1000 fmul_def fdiv_def[of "of_int _"]
        q_def[symmetric] x2_def[symmetric] x3_def[symmetric] m_def[symmetric])
  have "\<bar>of_int m / 1000 - 100 * r\<bar> \<le> 1 / 2000 + 801 / 2 ^ 53"
    using m1 unfolding p53 by linarith
  then show ?thesis using p m2 unfolding r_def by (intro exI[of _ m]) simp
qed

lemma percentage_of_err:
  assumes "c \<le> n" "0 < n"
  shows "\<bar>percentage_of c n - 100 * of_nat c / of_nat n\<bar> \<le> 1 / 2000 + 1 / 10 ^ 12"
proof -
  obtain m :: int where p: "percentage_of c n = fl (of_int m / 1000)"
    and m: "\<bar>of_int m\<bar> \<le> (100001::rat)"
    and e: "\<bar>of_int m / 1000 - 100 * of_nat c / of_nat n\<bar> \<le> (1 / 2000 + 801 / 2 ^ 53 :: rat)"
    using percentage_of_rounded[OF assms] by blast
  have "\<bar>of_int m / 1000\<bar> \<le> (101::rat)" using m by linarith
  from fl_bound[OF this] have "\<bar>fl (of_int m / 1000) - of_int m / 1000\<bar> \<le> 101 / 2 ^ 53" .
  then have "\<bar>fl (of_int m / 1000) - 100 * of_nat c / of_nat n\<bar> \<le> 1 / 2000 + 1 / 1000000000000"
    using e unfolding p53 by linarith
  then show ?thesis unfolding p by simp
qed

lemma percentage_of_all:
  assumes "0 < n"
  shows "percentage_of n n = 100"
proof -
  have "\<bar>float (int n) - of_nat n\<bar> \<le> of_nat n / 2 ^ 53" by (rule float_err)
  moreover have "(0::rat) < of_nat n" using assms by simp
  ultimately have "float (int n) \<noteq> 0" by (auto simp: abs_le_iff)
  then have "fdiv (float (int n)) (float (int n)) = 1" by (simp add: fdiv_def fl_1)
  then show ?thesis
    by (simp add: percentage_of_def float_100 fmul_def fl_100 np_round_100)
qed


section \<open>Counting and sorting\<close>

lemma hash_key_NaN: "hash_key c = NaN \<longleftrightarrow> c = NaN"
  by (cases c) (simp_all add: hash_key_def)

lemma hash_key_ObjV: "hash_key (ObjV a) = ObjV a"
  by (simp add: hash_key_def)

lemma set_unique_by: "set (unique_by f xs) \<subseteq> set xs"
  by (induction f xs rule: unique_by.induct) auto

lemma keys_unique_by: "f ` set (unique_by f xs) = f ` set xs"
  by (induction f xs rule: unique_by.induct) auto

lemma distinct_unique_by: "distinct (map f (unique_by f xs))"
proof (induction f xs rule: unique_by.induct)
  case (1 f)
  then show ?case by simp
next
  case (2 f x xs)
  have "f x \<notin> f ` set (unique_by f (filter (\<lambda>y. f y \<noteq> f x) xs))"
    unfolding keys_unique_by by auto
  with 2 show ?case by simp
qed

lemma count_by_count_list: "count_by f xs k = count_list (map f xs) (f k)"
  by (induction xs) (simp_all add: count_by_def)

lemma sum_counts_unique_by: "sum_list (map (count_by f xs) (unique_by f xs)) = length xs"
proof -
  have "count_by f xs = (\<lambda>k. count_list (map f xs) (f k))"
    by (rule ext) (rule count_by_count_list)
  then have "sum_list (map (count_by f xs) (unique_by f xs)) =
        sum_list (map (count_list (map f xs)) (map f (unique_by f xs)))"
    by (simp add: comp_def)
  also have "\<dots> = sum (count_list (map f xs)) (set (map f (unique_by f xs)))"
    by (rule sum_list_distinct_conv_sum_set) (rule distinct_unique_by)
  also have "\<dots> = length (map f xs)"
    by (rule sum_count_set) (simp_all add: keys_unique_by)
  finally show ?thesis by simp
qed

lemma length_unique_by: "length (unique_by f xs) = card (f ` set xs)"
proof -
  have "length (unique_by f xs) = length (map f (unique_by f xs))" by simp
  also have "\<dots> = card (set (map f (unique_by f xs)))"
    by (rule distinct_card[symmetric]) (rule distinct_unique_by)
  also have "\<dots> = card (f ` set xs)" by (simp add: keys_unique_by)
  finally show ?thesis .
qed

lemma unique_by_single:
  assumes "set xs = {v}"
  shows "unique_by f xs = [v]"
proof (cases xs)
  case Nil
  then show ?thesis using assms by simp
next
  case (Cons x ys)
  then have x: "x = v" and sub: "\<forall>y\<in>set ys. y = v" using assms by auto
  then have "filter (\<lambda>y. f y \<noteq> f x) ys = []" by (simp add: filter_empty_conv)
  then show ?thesis using Cons x by simp
qed

lemma unique_by_distinct: "distinct (map f xs) \<Longrightarrow> unique_by f xs = xs"
proof (induction xs)
  case Nil
  then show ?case by simp
next
  case (Cons x xs)
  then have n: "f x \<notin> f ` set xs" by simp
  have "\<forall>y\<in>set xs. f y \<noteq> f x"
  proof
    fix y assume "y \<in> set xs"
    then have "f y \<in> f ` set xs" by simp
    with n show "f y \<noteq> f x" by auto
  qed
  then have "filter (\<lambda>y. f y \<noteq> f x) xs = xs" by (simp add: filter_id_conv)
  then show ?case using Cons by simp
qed

lemma sum_list_insort_key:
  "sum_list (map g (insort_key f x xs)) = (g x :: nat) + sum_list (map g xs)"
  by (induction xs) simp_all

lemma sum_list_sort_key: "sum_list (map g (sort_key f xs)) = (sum_list (map g xs) :: nat)"
  by (induction xs) (simp_all add: sum_list_insort_key)

lemma set_sort_values: "set (sort_values s) = set s"
  by (simp add: sort_values_def)

lemma length_sort_values: "length (sort_values s) = length s"
  by (simp add: sort_values_def)

lemma sorted_sort_values: "sorted_wrt (\<lambda>p q. snd q \<le> snd p) (sort_values s)"
proof -
  have "sorted (map (\<lambda>p. - int (snd p)) (sort_values s))"
    unfolding sort_values_def by (rule sorted_sort_key)
  then show ?thesis by (simp add: sorted_map)
qed

lemma sort_values_idem: "sort_values (sort_values s) = sort_values s"
  unfolding sort_values_def by (rule sort_key_id_if_sorted) (rule sorted_sort_key)

lemma map_fst_sort_values_set: "set (map fst (sort_values s)) = set (map fst s)"
  by (simp add: set_sort_values)

lemma distinct_map_sort_values:
  "distinct (map f s) \<Longrightarrow> distinct (map f (sort_values s))"
  unfolding sort_values_def by (simp add: distinct_map)

lemma set_dropna: "set (dropna xs) = set xs - {NaN}"
  by (auto simp: dropna_def)

lemma length_dropna: "length (dropna xs) + count_list xs NaN = length xs"
  by (induction xs) (simp_all add: dropna_def)

lemma dropna_id: "NaN \<notin> set xs \<Longrightarrow> dropna xs = xs"
  by (auto simp: dropna_def filter_id_conv)

lemma count_by_dropna:
  assumes "k \<noteq> NaN"
  shows "count_by hash_key (dropna col) k = count_by hash_key col k"
proof -
  have n: "hash_key k \<noteq> NaN" "hash_key NaN = (NaN :: 'a cell)"
    using assms by (simp_all add: hash_key_NaN)
  have "filter (\<lambda>v. hash_key v = hash_key k) (filter (\<lambda>c. c \<noteq> NaN) col) =
        filter (\<lambda>v. hash_key v = hash_key k) col"
    using n by (induction col) auto
  then show ?thesis by (simp add: count_by_def dropna_def)
qed

lemma value_counts_labels:
  "set (map fst (value_counts col)) \<subseteq> set col - {NaN}"
  "hash_key ` set (map fst (value_counts col)) = hash_key ` (set col - {NaN})"
proof -
  have l: "set (map fst (value_counts col)) = set (unique_by hash_key (dropna col))"
    by (simp add: value_counts_def Let_def set_sort_values image_image unique_def)
  show "set (map fst (value_counts col)) \<subseteq> set col - {NaN}"
    unfolding l using set_unique_by[of hash_key "dropna col"] by (simp add: set_dropna)
  show "hash_key ` set (map fst (value_counts col)) = hash_key ` (set col - {NaN})"
    unfolding l by (simp add: keys_unique_by set_dropna)
qed

lemma distinct_value_counts: "distinct (map hash_key (map fst (value_counts col)))"
proof -
  let ?S = "map (\<lambda>k. (k, count_by hash_key (dropna col) k)) (unique_by hash_key (dropna col))"
  have d: "distinct (map (\<lambda>p. hash_key (fst p)) ?S)"
    by (simp add: comp_def distinct_unique_by)
  have "distinct (map (\<lambda>p. hash_key (fst p)) (sort_values ?S))"
    by (rule distinct_map_sort_values[OF d])
  then show ?thesis
    by (simp add: value_counts_def Let_def unique_def comp_def)
qed

lemma distinct_labels: "distinct (map fst (value_counts col))"
  using distinct_value_counts[of col] distinct_map[of hash_key "map fst (value_counts col)"]
  by blast

lemma length_value_counts:
  "length (value_counts col) = card (hash_key ` (set col - {NaN}))"
  by (simp add: value_counts_def Let_def length_sort_values unique_def length_unique_by set_dropna)

lemma sum_value_counts: "sum_list (map snd (value_counts col)) = length (dropna col)"
proof -
  have "sum_list (map snd (value_counts col)) =
        sum_list (map snd (map (\<lambda>k. (k, count_by hash_key (dropna col) k))
          (unique_by hash_key (dropna col))))"
    by (simp add: value_counts_def Let_def sort_values_def sum_list_sort_key unique_def)
  also have "\<dots> = sum_list (map (count_by hash_key (dropna col)) (unique_by hash_key (dropna col)))"
    by (simp add: comp_def)
  finally show ?thesis by (simp add: sum_counts_unique_by)
qed

lemma value_counts_entry:
  assumes "(k, c) \<in> set (value_counts col)"
  shows "k \<in> set col" "k \<noteq> NaN" "c = count_by hash_key col k" "0 < c" "c \<le> length col"
proof -
  from assms have "k \<in> set (unique_by hash_key (dropna col))"
    and c: "c = count_by hash_key (dropna col) k"
    by (auto simp: value_counts_def Let_def set_sort_values unique_def)
  then have k: "k \<in> set (dropna col)" using set_unique_by[of hash_key "dropna col"] by auto
  show "k \<in> set col" and n: "k \<noteq> NaN" using k by (simp_all add: set_dropna)
  show c': "c = count_by hash_key col k"
    using c count_by_dropna[OF n] by simp
  have "filter (\<lambda>v. hash_key v = hash_key k) (dropna col) \<noteq> []"
    using k by (auto simp: filter_empty_conv)
  then show "0 < c" unfolding c count_by_def by simp
  show "c \<le> length col" unfolding c' count_by_def by (rule length_filter_le)
qed

lemma sorted_value_counts: "sorted_wrt (\<lambda>p q. snd q \<le> snd p) (value_counts col)"
  by (simp add: value_counts_def Let_def sorted_sort_values)

lemma sort_values_value_counts: "sort_values (value_counts col) = value_counts col"
  by (simp add: value_counts_def Let_def sort_values_idem)

lemma getitem_length:
  assumes "rectangular T" "getitem T c = Inr col"
  shows "length col = len T"
proof -
  from assms(2) have "map_of (columns T) c = Some col"
    by (auto simp: getitem_def split: option.splits)
  then have "(c, col) \<in> set (columns T)" by (rule map_of_SomeD)
  with assms(1) show ?thesis by (auto simp: rectangular_def len_def list_all_iff)
qed

lemma length_arange: "a \<le> b \<Longrightarrow> length (arange a b) = nat (b - a)"
  by (simp add: arange_def)


section \<open>The summary table\<close>

lemma create_result:
  assumes "deref s df = Some d" "getitem d column_name = Inr col"
  shows "create_class_distribution_table s df column_name =
           Inr (length (heap s), s\<lparr>heap := heap s @ [distribution_table (len d) col]\<rparr>)"
proof -
  define cd where "cd = value_counts col"
  have 1: "sort_values (value_counts col) = cd"
    by (simp add: cd_def sort_values_value_counts)
  have 2: "length (arange 1 (int (length cd) + 1) :: 'a cell list) = length cd"
    by (simp add: length_arange)
  show ?thesis
    apply (simp only: create_class_distribution_table_def assms option.case sum.case 1 Let_def)
    apply (simp add: DataFrame_def new_def deref_def set_index_def len_def 2
        distribution_table_def cd_def[symmetric] comp_def case_prod_unfold Let_def)
    done
qed

lemma create_Inr:
  assumes "create_class_distribution_table s df column_name = Inr r"
  obtains d col where "deref s df = Some d" "getitem d column_name = Inr col"
  using assms unfolding create_class_distribution_table_def
  by (auto split: option.splits sum.splits)

lemma deref_new: "deref (s\<lparr>heap := heap s @ [t]\<rparr>) (length (heap s)) = Some t"
  by (simp add: deref_def)

lemma deref_old: "deref s r = Some d \<Longrightarrow> deref (s\<lparr>heap := heap s @ ts\<rparr>) r = Some d"
  by (auto simp: deref_def nth_append split: if_splits)

lemma columns_distribution_table:
  "columns (distribution_table n col) =
     [(''Attacco'', map fst (value_counts col)),
      (''Numero di Esempi'', map (\<lambda>c. IntV (int c)) (map snd (value_counts col))),
      (''Percentuale'', map FloatV (map (\<lambda>c. percentage_of c n) (map snd (value_counts col))))]"
  by (simp add: distribution_table_def Let_def comp_def case_prod_unfold)

lemma getitem_distribution_table:
  "getitem (distribution_table n col) ''Attacco'' = Inr (map fst (value_counts col))"
  "getitem (distribution_table n col) ''Numero di Esempi'' =
     Inr (map (\<lambda>c. IntV (int c)) (map snd (value_counts col)))"
  "getitem (distribution_table n col) ''Percentuale'' =
     Inr (map FloatV (map (\<lambda>c. percentage_of c n) (map snd (value_counts col))))"
  by (simp_all add: getitem_def columns_distribution_table)

lemma index_distribution_table:
  "index (distribution_table n col) = map IntV [1..int (length (value_counts col))]"
  by (simp add: distribution_table_def Let_def arange_def)

lemma len_distribution_table:
  "len (distribution_table n col) = card (hash_key ` (set col - {NaN}))"
  by (simp add: len_def index_distribution_table length_value_counts)

lemma counts_le:
  assumes "c \<in> set (map snd (value_counts col))"
  shows "0 < c" "c \<le> length col"
  using assms value_counts_entry(4,5)[of _ c col] by auto

lemma sorted_counts: "sorted_wrt (\<lambda>a b. b \<le> a) (map snd (value_counts col))"
  using sorted_value_counts[of col] by (simp add: sorted_wrt_map)

lemma pct_sum_err:
  assumes "\<forall>c \<in> set cs. c \<le> n" "0 < n"
  shows "\<bar>sum_list (map (\<lambda>c. percentage_of c n) cs) - 100 * of_nat (sum_list cs) / of_nat n\<bar>
           \<le> of_nat (length cs) * (1 / 2000 + 1 / 10 ^ 12)"
  using assms(1)
proof (induction cs)
  case Nil
  then show ?case by simp
next
  case (Cons c cs)
  have 1: "\<bar>percentage_of c n - 100 * of_nat c / of_nat n\<bar> \<le> 1 / 2000 + 1 / 10 ^ 12"
    using Cons.prems assms(2) by (intro percentage_of_err) auto
  have 2: "\<bar>sum_list (map (\<lambda>c. percentage_of c n) cs) - 100 * of_nat (sum_list cs) / of_nat n\<bar>
           \<le> of_nat (length cs) * (1 / 2000 + 1 / 10 ^ 12)"
    using Cons by simp
  have 3: "100 * of_nat (sum_list (c # cs)) / (of_nat n :: rat)
           = 100 * of_nat c / of_nat n + 100 * of_nat (sum_list cs) / of_nat n"
    by (simp add: add_divide_distrib distrib_left)
  have 4: "of_nat (length (c # cs)) * (1 / 2000 + 1 / 10 ^ 12 :: rat)
           = (1 / 2000 + 1 / 10 ^ 12) + of_nat (length cs) * (1 / 2000 + 1 / 10 ^ 12)"
    by (simp add: algebra_simps)
  have "\<bar>a - a'\<bar> \<le> e1 \<Longrightarrow> \<bar>b - b'\<bar> \<le> e2 \<Longrightarrow> \<bar>a + b - (a' + b')\<bar> \<le> e1 + e2"
    for a a' b b' e1 e2 :: rat
    by linarith
  from this[OF 1 2] show ?case unfolding 3 4 by simp
qed

lemma rectangular_attack_table: "rectangular (attack_table col)"
  by (simp add: rectangular_def attack_table_def arange_def)

lemma getitem_attack_table: "getitem (attack_table col) ''attack_type'' = Inr col"
  by (simp add: getitem_def attack_table_def)

lemma len_attack_table: "len (attack_table col) = length col"
  by (simp add: len_def attack_table_def arange_def)

lemma deref_0: "deref \<lparr>heap = t # ts, canvas = c\<rparr> 0 = Some t"
  by (simp add: deref_def)

lemma percentage_1_2: "percentage_of (Suc 0) (Suc (Suc 0)) = 50"
  by code_simp

lemma value_counts_dos_nan: "value_counts [ObjV ''dos'', NaN] = [(ObjV ''dos'', Suc 0)]"
  by code_simp

lemma create_dos_nan:
  "create_class_distribution_table
     \<lparr>heap = [attack_table [ObjV ''dos'', NaN]], canvas = []\<rparr> 0 ''attack_type'' =
   Inr (1, \<lparr>heap = [attack_table [ObjV ''dos'', NaN],
                     \<lparr>index = [IntV 1],
                      columns = [(''Attacco'', [ObjV ''dos'']),
                                 (''Numero di Esempi'', [IntV 1]),
                                 (''Percentuale'', [FloatV 50])]\<rparr>],
            canvas = []\<rparr>)"
  by (simp add: create_result[OF deref_0 getitem_attack_table] distribution_table_def
      value_counts_dos_nan len_attack_table percentage_1_2 arange_def upto.simps)


lemma value_counts_single:
  assumes "set col = {v}" "v \<noteq> NaN"
  shows "value_counts col = [(v, length col)]"
proof -
  have d: "dropna col = col" using assms by (intro dropna_id) auto
  have u: "unique col = [v]"
    unfolding unique_def by (rule unique_by_single[OF assms(1)])
  have "filter (\<lambda>x. hash_key x = hash_key v) col = col"
    using assms by (intro filter_True) auto
  then have c: "count_by hash_key col v = length col"
    by (simp add: count_by_def)
  show ?thesis by (simp add: value_counts_def Let_def d u c sort_values_def)
qed

lemma count_list_distinct:
  "distinct xs \<Longrightarrow> x \<in> set xs \<Longrightarrow> count_list xs x = Suc 0"
  by (induction xs) (auto simp: count_list_0_iff)

lemma value_counts_distinct:
  assumes "distinct (map hash_key xs)" "NaN \<notin> set xs"
  shows "value_counts (xs @ [NaN]) = map (\<lambda>x. (x, Suc 0)) xs"
proof -
  have d: "dropna (xs @ [NaN]) = xs" using assms(2) by (auto simp: dropna_def filter_id_conv)
  have u: "unique xs = xs"
    unfolding unique_def by (rule unique_by_distinct[OF assms(1)])
  have c: "map (\<lambda>k. (k, count_by hash_key xs k)) xs = map (\<lambda>x. (x, Suc 0)) xs"
  proof (rule map_cong[OF refl])
    fix x assume "x \<in> set xs"
    then show "(x, count_by hash_key xs x) = (x, Suc 0)"
      using assms(1) by (simp add: count_by_count_list count_list_distinct)
  qed
  have s: "sorted (map (\<lambda>p. - int (snd p)) (map (\<lambda>x. (x, Suc 0)) xs))"
    by (simp add: comp_def sorted_wrt_map sorted_wrt_iff_nth_less)
  show ?thesis
    by (simp only: value_counts_def Let_def d u c sort_values_def sort_key_id_if_sorted[OF s])
qed

lemma counts_are_counts:
  assumes "i < length (value_counts col)"
  shows "map snd (value_counts col) ! i = count_by hash_key col (map fst (value_counts col) ! i)"
proof -
  have "value_counts col ! i \<in> set (value_counts col)" using assms by simp
  then have "(fst (value_counts col ! i), snd (value_counts col ! i)) \<in> set (value_counts col)"
    by simp
  from value_counts_entry(3)[OF this] show ?thesis using assms by simp
qed

lemma count_in_table:
  assumes "rectangular T" "getitem T C = Inr col" "c \<in> set (map snd (value_counts col))"
  shows "c \<le> len T" "0 < len T"
proof -
  have "0 < c" "c \<le> length col" using counts_le[OF assms(3)] by simp_all
  then show "c \<le> len T" "0 < len T" using getitem_length[OF assms(1,2)] by simp_all
qed

lemma deref_store_of: "deref (store_of T) 0 = Some T"
  by (simp add: store_of_def deref_def)

lemma value_counts_Nil: "value_counts [] = []"
  by (simp add: value_counts_def dropna_def unique_def sort_values_def)

lemma create_empty:
  "create_class_distribution_table (store_of (attack_table [])) 0 ''attack_type'' =
   Inr (1, \<lparr>heap = [attack_table [],
                     \<lparr>index = [],
                      columns = [(''Attacco'', []),
                                 (''Numero di Esempi'', []),
                                 (''Percentuale'', [])]\<rparr>],
            canvas = []\<rparr>)"
  by (simp only: create_result[OF deref_store_of getitem_attack_table])
     (simp add: distribution_table_def value_counts_Nil arange_def store_of_def)

lemma percentage_3_4: "percentage_of 3 4 = 75" by code_simp
lemma percentage_1_4: "percentage_of (Suc 0) 4 = 25" by code_simp
lemma percentage_1_600:
  "percentage_of (Suc 0) 600 = 6016809102166983 / 36028797018963968" by code_simp

lemma value_counts_scenario:
  "value_counts scenario_column = [(ObjV ''dos'', 3), (ObjV ''probe'', Suc 0)]"
  unfolding scenario_column_def by code_simp

lemma value_counts_all_missing: "value_counts [NaN, NaN] = []"
  by (simp add: value_counts_def dropna_def unique_def sort_values_def)

lemma create_scenario:
  "create_class_distribution_table (store_of (attack_table scenario_column)) 0 ''attack_type'' =
   Inr (1, \<lparr>heap = [attack_table scenario_column,
                     \<lparr>index = [IntV 1, IntV 2],
                      columns = [(''Attacco'', [ObjV ''dos'', ObjV ''probe'']),
                                 (''Numero di Esempi'', [IntV 3, IntV 1]),
                                 (''Percentuale'', [FloatV 75, FloatV 25])]\<rparr>],
            canvas = []\<rparr>)"
proof -
  have l: "len (attack_table scenario_column) = 4"
    by (simp add: len_attack_table scenario_column_def)
  have a: "arange 1 3 = [IntV 1, IntV 2 :: string cell]"
    by (simp add: arange_def upto.simps)
  show ?thesis
    by (simp only: create_result[OF deref_store_of getitem_attack_table])
       (simp add: distribution_table_def value_counts_scenario l percentage_3_4 percentage_1_4
          a store_of_def)
qed

lemma create_all_missing:
  "create_class_distribution_table (store_of (attack_table [NaN, NaN])) 0 ''attack_type'' =
   Inr (1, \<lparr>heap = [attack_table [NaN, NaN],
                     \<lparr>index = [],
                      columns = [(''Attacco'', []),
                                 (''Numero di Esempi'', []),
                                 (''Percentuale'', [])]\<rparr>],
            canvas = []\<rparr>)"
  by (simp only: create_result[OF deref_store_of getitem_attack_table])
     (simp add: distribution_table_def value_counts_all_missing arange_def store_of_def)

lemma create_distinct:
  "create_class_distribution_table (store_of (attack_table distinct_column)) 0 ''attack_type'' =
   Inr (1, \<lparr>heap = [attack_table distinct_column,
                     \<lparr>index = arange 1 600,
                      columns = [(''Attacco'', map ObjV [0..<599]),
                                 (''Numero di Esempi'', replicate 599 (IntV 1)),
                                 (''Percentuale'',
                                    replicate 599
                                      (FloatV (6016809102166983 / 36028797018963968)))]\<rparr>],
            canvas = []\<rparr>)"
proof -
  have l: "len (attack_table distinct_column) = 600"
    by (simp add: len_attack_table distinct_column_def)
  have d: "distinct (map hash_key (map ObjV [0..<599]))" "NaN \<notin> set (map ObjV [0..<599])"
    by (auto simp: distinct_map inj_on_def comp_def hash_key_ObjV)
  have v: "value_counts distinct_column = map (\<lambda>x. (x, Suc 0)) (map ObjV [0..<599])"
    unfolding distinct_column_def by (rule value_counts_distinct[OF d])
  show ?thesis
    by (simp only: create_result[OF deref_store_of getitem_attack_table])
       (simp add: distribution_table_def v l percentage_1_600 store_of_def comp_def
          map_replicate_const)
qed

text \<open>
  A column of dtype object that holds the integer 1, the double 1.0 and three times
  \<^verbatim>\<open>a\<close>: the two numbers are one category, listed under the first of them.
\<close>

lemma value_counts_mixed:
  "value_counts [IntV 1, FloatV 1, ObjV ''a'', ObjV ''a'', ObjV ''a''] =
     [(ObjV ''a'', 3), (IntV 1, 2)]"
  by code_simp

lemma percentage_3_5: "percentage_of 3 5 = 60" by code_simp
lemma percentage_2_5: "percentage_of 2 5 = 40" by code_simp

lemma create_mixed:
  "create_class_distribution_table
     (store_of (attack_table [IntV 1, FloatV 1, ObjV ''a'', ObjV ''a'', ObjV ''a''])) 0
     ''attack_type'' =
   Inr (1, \<lparr>heap = [attack_table [IntV 1, FloatV 1, ObjV ''a'', ObjV ''a'', ObjV ''a''],
                     \<lparr>index = [IntV 1, IntV 2],
                      columns = [(''Attacco'', [ObjV ''a'', IntV 1]),
                                 (''Numero di Esempi'', [IntV 3, IntV 2]),
                                 (''Percentuale'', [FloatV 60, FloatV 40])]\<rparr>],
            canvas = []\<rparr>)"
proof -
  let ?col = "[IntV 1, FloatV 1, ObjV ''a'', ObjV ''a'', ObjV ''a''] :: string cell list"
  have l: "len (attack_table ?col) = 5"
    by (simp add: len_attack_table)
  have a: "arange 1 3 = [IntV 1, IntV 2 :: string cell]"
    by (simp add: arange_def upto.simps)
  show ?thesis
    by (simp only: create_result[OF deref_store_of getitem_attack_table])
       (simp add: distribution_table_def value_counts_mixed l percentage_3_5 percentage_2_5
          a store_of_def)
qed

lemma sum_list_shares:
  "sum_list (map (\<lambda>c. 100 * of_nat c / of_nat n) cs) = (100 * of_nat (sum_list cs) / of_nat n :: rat)"
  by (induction cs) (simp_all add: add_divide_distrib distrib_left)

section \<open>The exclusive values\<close>


lemma deref_abc_store:
  "deref abc_store 0 = Some (x_table [ObjV ''a'', ObjV ''b'', ObjV ''c''])"
  "deref abc_store (Suc 0) = Some (x_table [ObjV ''b'', ObjV ''c'', ObjV ''d''])"
  by (simp_all add: abc_store_def deref_def)


lemma find_result:
  assumes "deref s df1 = Some d1" "getitem d1 c = Inr col1"
    and "deref s df2 = Some d2" "getitem d2 c = Inr col2"
  shows "find_unique_values s df1 df2 c n1 n2 =
     Inr ((length (heap s), Suc (length (heap s))),
          s\<lparr>heap := heap s @
             [single_column (set_difference (unique col1) (unique col2))
                (''Valori unici in '' @ kwarg ''First Dataset'' n1),
              single_column (set_difference (unique col2) (unique col1))
                (''Valori unici in '' @ kwarg ''Second Dataset'' n2)]\<rparr>)"
  by (simp add: find_unique_values_def assms Let_def new_def)









section \<open>The plots and the store\<close>

lemma heap_draw: "heap (draw c s) = heap s"
  by (simp add: draw_def)

lemma heap_annotate: "heap (annotate n s b) = heap s"
  by (cases b) (simp add: annotate_def heap_draw)

lemma heap_foldl_annotate: "heap (foldl (annotate n) s bs) = heap s"
  by (induction bs arbitrary: s) (simp_all add: heap_annotate)

lemma deref_heap: "heap s' = heap s \<Longrightarrow> deref s' r = deref s r"
  by (simp add: deref_def)

lemma plot_class_distribution_heap:
  assumes "plot_class_distribution s df column title xlabel ylabel figsize color_map rotation = Inr s'"
  shows "heap s' = heap s"
  using assms unfolding plot_class_distribution_def Let_def
  by (auto split: option.splits sum.splits simp: heap_draw heap_foldl_annotate)

lemma plot_pie_chart_distribution_heap:
  assumes "plot_pie_chart_distribution s df column title figsize explode_threshold = Inr s'"
  shows "heap s' = heap s"
  using assms unfolding plot_pie_chart_distribution_def Let_def
  by (auto split: option.splits sum.splits simp: heap_draw)

lemma plot_grouped_bar_heap:
  assumes "plot_grouped_bar s df cat sub_category count title xlabel ylabel figsize rotation = Inr s'"
  shows "heap s' = heap s"
  using assms unfolding plot_grouped_bar_def Let_def
  by (auto split: option.splits sum.splits if_splits simp: heap_draw)

lemma plot_line_distribution_deref:
  assumes "plot_line_distribution s df column figsize rotation grid title xlabel ylabel = Inr s'"
  shows "deref s' df = deref s df"
proof -
  from assms obtain d where d: "deref s df = Some d"
    unfolding plot_line_distribution_def Let_def by (auto split: option.splits)
  then have lt: "df < length (heap s)" by (auto simp: deref_def split: if_splits)
  from assms d obtain t where "heap s' = heap s @ [t]"
    unfolding plot_line_distribution_def Let_def new_def set_columns_def
    by (auto split: option.splits sum.splits if_splits prod.splits simp: heap_draw deref_def)
  then show ?thesis using lt by (simp add: deref_def nth_append)
qed

lemma create_deref:
  assumes "create_class_distribution_table s df column_name = Inr (t, s')"
  shows "deref s' df = deref s df"
proof -
  from create_Inr[OF assms] obtain d col where
    h: "deref s df = Some d" "getitem d column_name = Inr col" by blast
  from assms create_result[OF h] have "s' = s\<lparr>heap := heap s @ [distribution_table (len d) col]\<rparr>"
    by simp
  then show ?thesis using deref_old[OF h(1)] h(1) by simp
qed

lemma find_deref:
  assumes "find_unique_values s df1 df2 column_name df1_name df2_name = Inr (e, s')"
  shows "deref s' df1 = deref s df1" "deref s' df2 = deref s df2"
proof -
  from assms obtain d1 col1 d2 col2 where
    h: "deref s df1 = Some d1" "getitem d1 column_name = Inr col1"
       "deref s df2 = Some d2" "getitem d2 column_name = Inr col2"
    unfolding find_unique_values_def Let_def by (auto split: option.splits sum.splits)
  from assms find_result[OF h] obtain ts where "s' = s\<lparr>heap := heap s @ ts\<rparr>"
    by auto
  then show "deref s' df1 = deref s df1" "deref s' df2 = deref s df2"
    using deref_old[OF h(1)] deref_old[OF h(3)] h by simp_all
qed


lemma deref_flows_store:
  "deref flows_store 0 = Some flows_table" "deref flows_store (Suc 0) = Some flows_table"
  by (simp_all add: flows_store_def deref_def)

lemma getitem_flows_table:
  "getitem flows_table ''attack_type'' = Inr [ObjV ''dos'', ObjV ''probe'', ObjV ''dos'']"
  "getitem flows_table ''protocol_type'' = Inr [ObjV ''tcp'', ObjV ''udp'', ObjV ''tcp'']"
  by (simp_all add: getitem_def flows_table_def)

lemma explode_3_4: "float 3 < fmul (float 4) (lit (1 / 20)) \<longleftrightarrow> False"
  by code_simp

lemma explode_1_4: "float 1 < fmul (float 4) (lit (1 / 20)) \<longleftrightarrow> False"
  by code_simp

lemma pie_scenario:
  "plot_pie_chart_distribution (store_of (attack_table scenario_column)) 0 ''attack_type''
     ''Attacks'' None None =
   Inr \<lparr>heap = [attack_table scenario_column],
        canvas = [Figure (10, 8),
                  Pie [3, 1] [ObjV ''dos'', ObjV ''probe''] [0, 0] ''%1.1f%%'' 140,
                  Title ''Attacks'',
                  Show]\<rparr>"
  apply (simp only: plot_pie_chart_distribution_def deref_store_of getitem_attack_table
      option.case sum.case value_counts_scenario Let_def)
  apply (simp add: kwarg_def draw_def store_of_def explode_3_4 explode_1_4)
  done


section \<open>Claims\<close>

text \<open>
  C1, as the code has it: the summary has one row per distinct non-missing value of the
  column, an integer and a double of the same value being one value as they are for pandas,
  and its counts add up to the number of rows of the table whose value is not missing; with
  the missing entries they make up the row count.
\<close>
theorem table_rows_and_counts:
  assumes "rectangular T" "deref s df = Some T" "getitem T C = Inr col"
  shows "\<exists>t s' tab counts.
           create_class_distribution_table s df C = Inr (t, s') \<and>
           deref s' t = Some tab \<and>
           len tab = card (hash_key ` (set col - {NaN})) \<and>
           getitem tab ''Numero di Esempi'' = Inr (map (\<lambda>c. IntV (int c)) counts) \<and>
           length counts = len tab \<and>
           sum_list counts + count_list col NaN = len T"
proof -
  let ?tab = "distribution_table (len T) col"
  let ?counts = "map snd (value_counts col)"
  have "sum_list ?counts + count_list col NaN = len T"
    using length_dropna[of col] getitem_length[OF assms(1,3)] by (simp add: sum_value_counts)
  moreover have "length ?counts = len ?tab"
    by (simp add: len_distribution_table length_value_counts)
  ultimately show ?thesis
    using create_result[OF assms(2,3)] deref_new[of s ?tab]
      getitem_distribution_table(2)[of "len T" col] len_distribution_table[of "len T" col]
    by blast
qed

theorem table_rows_and_counts_witness:
  "rectangular (attack_table [IntV 1, NaN, ObjV ''dos'', FloatV 1, ObjV ''dos'']) \<and>
   deref \<lparr>heap = [attack_table [IntV 1, NaN, ObjV ''dos'', FloatV 1, ObjV ''dos'']], canvas = []\<rparr> 0 =
     Some (attack_table [IntV 1, NaN, ObjV ''dos'', FloatV 1, ObjV ''dos'']) \<and>
   getitem (attack_table [IntV 1, NaN, ObjV ''dos'', FloatV 1, ObjV ''dos'']) ''attack_type'' =
     Inr [IntV 1, NaN, ObjV ''dos'', FloatV 1, ObjV ''dos''] \<and>
   (\<exists>t s' tab counts.
      create_class_distribution_table
        \<lparr>heap = [attack_table [IntV 1, NaN, ObjV ''dos'', FloatV 1, ObjV ''dos'']], canvas = []\<rparr>
        0 ''attack_type'' = Inr (t, s') \<and>
      deref s' t = Some tab \<and>
      len tab = 2 \<and>
      getitem tab ''Numero di Esempi'' = Inr (map (\<lambda>c. IntV (int c)) counts) \<and>
      length counts = len tab \<and>
      sum_list counts + 1 = 5)"
proof -
  let ?col = "[IntV 1, NaN, ObjV ''dos'', FloatV 1, ObjV ''dos'']"
  have h1: "rectangular (attack_table ?col)"
    by (simp add: rectangular_def attack_table_def arange_def)
  have h2: "deref \<lparr>heap = [attack_table ?col], canvas = []\<rparr> 0 = Some (attack_table ?col)"
    by (simp add: deref_def)
  have h3: "getitem (attack_table ?col) ''attack_type'' = Inr ?col"
    by (simp add: getitem_def attack_table_def)
  have "card (hash_key ` (set ?col - {NaN})) = 2"
    by code_simp
  moreover have "count_list ?col NaN = 1" "len (attack_table ?col) = 5"
    by (simp_all add: len_attack_table)
  ultimately have c: "card (hash_key ` (set ?col - {NaN})) = 2" "count_list ?col NaN = 1"
    "len (attack_table ?col) = 5"
    by blast+
  show ?thesis
    using table_rows_and_counts[OF h1 h2 h3] h1 h2 h3 unfolding c by simp
qed

text \<open>
  C1 as stated fails on a column with a missing entry: the table with the two rows
  \<^verbatim>\<open>dos\<close> and missing has a summary whose counts add up to 1, not to 2.
\<close>

theorem counts_sum_counterexample:
  "create_class_distribution_table
     \<lparr>heap = [attack_table [ObjV ''dos'', NaN]], canvas = []\<rparr> 0 ''attack_type'' =
   Inr (1, \<lparr>heap = [attack_table [ObjV ''dos'', NaN],
                     \<lparr>index = [IntV 1],
                      columns = [(''Attacco'', [ObjV ''dos'']),
                                 (''Numero di Esempi'', [IntV 1]),
                                 (''Percentuale'', [FloatV 50])]\<rparr>],
            canvas = []\<rparr>) \<and>
   len (attack_table [ObjV ''dos'', NaN :: string cell]) = 2"
  by (simp add: create_dos_nan len_attack_table)

text \<open>
  C5: the summary has exactly the three columns \<^verbatim>\<open>Attacco\<close>, \<^verbatim>\<open>Numero di Esempi\<close> and
  \<^verbatim>\<open>Percentuale\<close>; the labels are non-missing entries of the column, one of each distinct
  value (an integer and a double of the same value being one value, as they are for
  pandas), each with the number of entries of its value; the counts are in descending
  order; each percentage is the double nearest to
  a number of thousandths \<open>m / 1000\<close> that lies within half a thousandth (and the
  accumulated binary64 error, below \<open>10^-12\<close>) of the category's share of the row count;
  the row labels are 1, 2, ... in steps of one.
\<close>
theorem summary_table_shape:
  assumes "rectangular T" "deref s df = Some T" "getitem T C = Inr col"
  shows "\<exists>t s' tab labels counts pcts.
           create_class_distribution_table s df C = Inr (t, s') \<and>
           deref s' t = Some tab \<and>
           columns tab = [(''Attacco'', labels),
                          (''Numero di Esempi'', map (\<lambda>c. IntV (int c)) counts),
                          (''Percentuale'', map FloatV pcts)] \<and>
           length labels = length counts \<and> length pcts = length counts \<and>
           distinct (map hash_key labels) \<and> set labels \<subseteq> set col - {NaN} \<and>
           hash_key ` set labels = hash_key ` (set col - {NaN}) \<and>
           (\<forall>i<length counts. counts ! i = count_by hash_key col (labels ! i)) \<and>
           sorted_wrt (\<lambda>a b. b \<le> a) counts \<and>
           (\<forall>i<length counts.
              pcts ! i = percentage_of (counts ! i) (len T) \<and>
              (\<exists>m::int. pcts ! i = fl (of_int m / 1000) \<and>
                 \<bar>of_int m / 1000 - 100 * of_nat (counts ! i) / of_nat (len T)\<bar>
                   \<le> (1 / 2000 + 1 / 10 ^ 12 :: rat))) \<and>
           index tab = map IntV [1..int (length counts)]"
proof -
  let ?tab = "distribution_table (len T) col"
  let ?labels = "map fst (value_counts col)"
  let ?counts = "map snd (value_counts col)"
  let ?pcts = "map (\<lambda>c. percentage_of c (len T)) ?counts"
  have 1: "create_class_distribution_table s df C =
             Inr (length (heap s), s\<lparr>heap := heap s @ [?tab]\<rparr>)"
    by (rule create_result[OF assms(2,3)])
  have 2: "deref (s\<lparr>heap := heap s @ [?tab]\<rparr>) (length (heap s)) = Some ?tab"
    by (rule deref_new)
  have 3: "columns ?tab = [(''Attacco'', ?labels),
                          (''Numero di Esempi'', map (\<lambda>c. IntV (int c)) ?counts),
                          (''Percentuale'', map FloatV ?pcts)]"
    by (rule columns_distribution_table)
  have 4: "length ?labels = length ?counts" "length ?pcts = length ?counts" by simp_all
  have 5: "distinct (map hash_key ?labels)" "set ?labels \<subseteq> set col - {NaN}"
    "hash_key ` set ?labels = hash_key ` (set col - {NaN})"
    by (rule distinct_value_counts, rule value_counts_labels(1), rule value_counts_labels(2))
  have 6: "\<forall>i<length ?counts. ?counts ! i = count_by hash_key col (?labels ! i)"
    using counts_are_counts[of _ col] by simp
  have 7: "sorted_wrt (\<lambda>a b. b \<le> a) ?counts" by (rule sorted_counts)
  have 8: "\<forall>i<length ?counts.
              ?pcts ! i = percentage_of (?counts ! i) (len T) \<and>
              (\<exists>m::int. ?pcts ! i = fl (of_int m / 1000) \<and>
                 \<bar>of_int m / 1000 - 100 * of_nat (?counts ! i) / of_nat (len T)\<bar>
                   \<le> (1 / 2000 + 1 / 10 ^ 12 :: rat))"
  proof (intro allI impI)
    fix i assume i: "i < length ?counts"
    then have "?counts ! i \<in> set ?counts" by (rule nth_mem)
    from count_in_table[OF assms(1,3) this]
    have c: "?counts ! i \<le> len T" "0 < len T" .
    obtain m :: int where m: "percentage_of (?counts ! i) (len T) = fl (of_int m / 1000)"
      "\<bar>of_int m / 1000 - 100 * of_nat (?counts ! i) / of_nat (len T)\<bar>
         \<le> (1 / 2000 + 801 / 2 ^ 53 :: rat)"
      using percentage_of_rounded[OF c] by blast
    have "\<bar>of_int m / 1000 - 100 * of_nat (?counts ! i) / of_nat (len T)\<bar>
         \<le> (1 / 2000 + 1 / 10 ^ 12 :: rat)"
      using m(2) unfolding p53 by simp
    moreover have p: "?pcts ! i = percentage_of (?counts ! i) (len T)"
      using i by simp
    ultimately show "?pcts ! i = percentage_of (?counts ! i) (len T) \<and>
              (\<exists>m::int. ?pcts ! i = fl (of_int m / 1000) \<and>
                 \<bar>of_int m / 1000 - 100 * of_nat (?counts ! i) / of_nat (len T)\<bar>
                   \<le> (1 / 2000 + 1 / 10 ^ 12 :: rat))"
      using m(1) by (metis (no_types))
  qed
  have 9: "index ?tab = map IntV [1..int (length ?counts)]"
    by (simp add: index_distribution_table)
  show ?thesis
    using 1 2 3 4 5 6 7 8 9 by blast
qed

text \<open>The hypotheses of \<open>summary_table_shape\<close> hold on the table of the scenario.\<close>

theorem summary_table_shape_witness:
  "rectangular (attack_table scenario_column) \<and>
   deref (store_of (attack_table scenario_column)) 0 = Some (attack_table scenario_column) \<and>
   getitem (attack_table scenario_column) ''attack_type'' = Inr scenario_column \<and>
   (\<exists>t s' tab labels counts pcts.
      create_class_distribution_table (store_of (attack_table scenario_column)) 0 ''attack_type''
        = Inr (t, s') \<and>
      deref s' t = Some tab \<and>
      columns tab = [(''Attacco'', labels),
                     (''Numero di Esempi'', map (\<lambda>c. IntV (int c)) counts),
                     (''Percentuale'', map FloatV pcts)] \<and>
      length labels = length counts \<and> length pcts = length counts \<and>
      distinct (map hash_key labels) \<and> set labels \<subseteq> set scenario_column - {NaN} \<and>
      hash_key ` set labels = hash_key ` (set scenario_column - {NaN}) \<and>
      (\<forall>i<length counts. counts ! i = count_by hash_key scenario_column (labels ! i)) \<and>
      sorted_wrt (\<lambda>a b. b \<le> a) counts \<and>
      (\<forall>i<length counts.
         pcts ! i = percentage_of (counts ! i) (len (attack_table scenario_column)) \<and>
         (\<exists>m::int. pcts ! i = fl (of_int m / 1000) \<and>
            \<bar>of_int m / 1000 -
               100 * of_nat (counts ! i) / of_nat (len (attack_table scenario_column))\<bar>
              \<le> (1 / 2000 + 1 / 10 ^ 12 :: rat))) \<and>
      index tab = map IntV [1..int (length counts)])"
proof -
  have h1: "rectangular (attack_table scenario_column)"
    by (rule rectangular_attack_table)
  have h2: "deref (store_of (attack_table scenario_column)) 0 = Some (attack_table scenario_column)"
    by (simp add: store_of_def deref_def)
  have h3: "getitem (attack_table scenario_column) ''attack_type'' = Inr scenario_column"
    by (simp add: getitem_def attack_table_def)
  from h1 h2 h3 summary_table_shape[OF h1 h2 h3] show ?thesis
    by (intro conjI)
qed

text \<open>
  C2, as the code has it: for a table with at least one row and no missing entry in the
  column, the percentages add up to 100 within half a thousandth per row of the summary
  (plus the binary64 error, below \<open>10^-12\<close> per row).
\<close>
theorem percentages_sum_to_100:
  assumes "rectangular T" "deref s df = Some T" "getitem T C = Inr col"
    and "NaN \<notin> set col" "col \<noteq> []"
  shows "\<exists>t s' tab pcts.
           create_class_distribution_table s df C = Inr (t, s') \<and>
           deref s' t = Some tab \<and>
           getitem tab ''Percentuale'' = Inr (map FloatV pcts) \<and>
           length pcts = len tab \<and>
           \<bar>sum_list pcts - 100\<bar> \<le> of_nat (length pcts) * (1 / 2000 + 1 / 10 ^ 12 :: rat)"
proof -
  let ?tab = "distribution_table (len T) col"
  let ?counts = "map snd (value_counts col)"
  let ?pcts = "map (\<lambda>c. percentage_of c (len T)) ?counts"
  have n: "length col = len T" by (rule getitem_length[OF assms(1,3)])
  have "0 < length col" using assms(5) by simp
  then have pos: "0 < len T" using n by simp
  have le: "\<forall>c\<in>set ?counts. c \<le> len T"
    using count_in_table(1)[OF assms(1,3)] by blast
  have "sum_list ?counts = length col"
    by (simp add: sum_value_counts dropna_id[OF assms(4)])
  then have "100 * of_nat (sum_list ?counts) / of_nat (len T) = (100::rat)"
    using n pos by simp
  with pct_sum_err[OF le pos]
  have "\<bar>sum_list ?pcts - 100\<bar> \<le> of_nat (length ?pcts) * (1 / 2000 + 1 / 10 ^ 12)"
    by simp
  moreover have "length ?pcts = len ?tab"
    by (simp add: len_distribution_table length_value_counts)
  ultimately show ?thesis
    using create_result[OF assms(2,3)] deref_new[of s ?tab]
      getitem_distribution_table(3)[of "len T" col]
    by blast
qed

text \<open>The hypotheses of \<open>percentages_sum_to_100\<close> hold on the table of the scenario.\<close>

theorem percentages_sum_to_100_witness:
  "rectangular (attack_table scenario_column) \<and>
   deref (store_of (attack_table scenario_column)) 0 = Some (attack_table scenario_column) \<and>
   getitem (attack_table scenario_column) ''attack_type'' = Inr scenario_column \<and>
   NaN \<notin> set scenario_column \<and> scenario_column \<noteq> [] \<and>
   (\<exists>t s' tab pcts.
      create_class_distribution_table (store_of (attack_table scenario_column)) 0 ''attack_type''
        = Inr (t, s') \<and>
      deref s' t = Some tab \<and>
      getitem tab ''Percentuale'' = Inr (map FloatV pcts) \<and>
      length pcts = len tab \<and>
      \<bar>sum_list pcts - 100\<bar> \<le> of_nat (length pcts) * (1 / 2000 + 1 / 10 ^ 12 :: rat))"
proof -
  have h1: "rectangular (attack_table scenario_column)"
    by (rule rectangular_attack_table)
  have h2: "deref (store_of (attack_table scenario_column)) 0 = Some (attack_table scenario_column)"
    by (simp add: store_of_def deref_def)
  have h3: "getitem (attack_table scenario_column) ''attack_type'' = Inr scenario_column"
    by (simp add: getitem_def attack_table_def)
  have h4: "NaN \<notin> set scenario_column" and h5: "scenario_column \<noteq> []"
    by (simp_all add: scenario_column_def)
  from h1 h2 h3 h4 h5 percentages_sum_to_100[OF h1 h2 h3 h4 h5] show ?thesis
    by (intro conjI)
qed

text \<open>
  C2 as stated fails on a table without rows: the summary is empty and its percentages
  add up to 0, which is not within 1 of 100.
\<close>

theorem percentages_sum_counterexample:
  "create_class_distribution_table (store_of (attack_table [])) 0 ''attack_type'' =
   Inr (1, \<lparr>heap = [attack_table [],
                     \<lparr>index = [],
                      columns = [(''Attacco'', []),
                                 (''Numero di Esempi'', []),
                                 (''Percentuale'', [])]\<rparr>],
            canvas = []\<rparr>) \<and>
   \<not> \<bar>sum_list ([] :: rat list) - 100\<bar> \<le> 1"
  by (simp add: create_empty)

text \<open>
  C6: a second call on the same table, made in the store the first call left behind, finds
  the input table as it was and returns a new table equal to the one the first call
  returned, which is itself still unchanged.
\<close>
theorem repeated_call_same_table:
  assumes "create_class_distribution_table s df C = Inr (t1, s1)"
  shows "\<exists>t2 s2. create_class_distribution_table s1 df C = Inr (t2, s2) \<and>
           t2 \<noteq> t1 \<and> deref s1 df = deref s df \<and>
           deref s2 t2 = deref s1 t1 \<and> deref s2 t1 = deref s1 t1"
proof -
  obtain d col where d: "deref s df = Some d" and col: "getitem d C = Inr col"
    using assms by (rule create_Inr)
  let ?tab = "distribution_table (len d) col"
  have 1: "t1 = length (heap s)" "s1 = s\<lparr>heap := heap s @ [?tab]\<rparr>"
    using assms create_result[OF d col] by simp_all
  have d1: "deref s1 df = Some d" unfolding 1 using d by (rule deref_old)
  have 2: "create_class_distribution_table s1 df C =
             Inr (length (heap s1), s1\<lparr>heap := heap s1 @ [?tab]\<rparr>)"
    by (rule create_result[OF d1 col])
  have 3: "deref s1 t1 = Some ?tab" unfolding 1 by (rule deref_new)
  have 4: "deref (s1\<lparr>heap := heap s1 @ [?tab]\<rparr>) (length (heap s1)) = Some ?tab"
    by (rule deref_new)
  have 5: "deref (s1\<lparr>heap := heap s1 @ [?tab]\<rparr>) t1 = Some ?tab"
    using 3 by (rule deref_old)
  have 6: "length (heap s1) \<noteq> t1" unfolding 1 by simp
  show ?thesis using 2 3 4 5 6 d d1 by simp
qed

text \<open>
  The hypothesis of \<open>repeated_call_same_table\<close> holds for the first call on the table
  with the rows \<^verbatim>\<open>dos\<close> and missing; the second call returns the same one-row summary
  under a new reference.
\<close>

theorem repeated_call_same_table_witness:
  "create_class_distribution_table (store_of (attack_table [ObjV ''dos'', NaN])) 0 ''attack_type'' =
     Inr (1, \<lparr>heap = [attack_table [ObjV ''dos'', NaN],
                     \<lparr>index = [IntV 1],
                      columns = [(''Attacco'', [ObjV ''dos'']),
                                 (''Numero di Esempi'', [IntV 1]),
                                 (''Percentuale'', [FloatV 50])]\<rparr>],
            canvas = []\<rparr>) \<and>
   (\<exists>t2 s2. create_class_distribution_table
        \<lparr>heap = [attack_table [ObjV ''dos'', NaN],
                     \<lparr>index = [IntV 1],
                      columns = [(''Attacco'', [ObjV ''dos'']),
                                 (''Numero di Esempi'', [IntV 1]),
                                 (''Percentuale'', [FloatV 50])]\<rparr>],
            canvas = []\<rparr> 0 ''attack_type'' = Inr (t2, s2) \<and>
      t2 \<noteq> 1 \<and>
      deref s2 t2 = Some \<lparr>index = [IntV 1],
                      columns = [(''Attacco'', [ObjV ''dos'']),
                                 (''Numero di Esempi'', [IntV 1]),
                                 (''Percentuale'', [FloatV 50])]\<rparr>)"
proof -
  have h: "create_class_distribution_table (store_of (attack_table [ObjV ''dos'', NaN])) 0
      ''attack_type'' =
     Inr (1, \<lparr>heap = [attack_table [ObjV ''dos'', NaN],
                     \<lparr>index = [IntV 1],
                      columns = [(''Attacco'', [ObjV ''dos'']),
                                 (''Numero di Esempi'', [IntV 1]),
                                 (''Percentuale'', [FloatV 50])]\<rparr>],
            canvas = []\<rparr>)"
    using create_dos_nan by (simp add: store_of_def)
  from repeated_call_same_table[OF h]
  obtain t2 s2 where r: "create_class_distribution_table
        \<lparr>heap = [attack_table [ObjV ''dos'', NaN],
                     \<lparr>index = [IntV 1],
                      columns = [(''Attacco'', [ObjV ''dos'']),
                                 (''Numero di Esempi'', [IntV 1]),
                                 (''Percentuale'', [FloatV 50])]\<rparr>],
            canvas = []\<rparr> 0 ''attack_type'' = Inr (t2, s2)"
    "t2 \<noteq> 1"
    "deref s2 t2 = deref \<lparr>heap = [attack_table [ObjV ''dos'', NaN],
                     \<lparr>index = [IntV 1],
                      columns = [(''Attacco'', [ObjV ''dos'']),
                                 (''Numero di Esempi'', [IntV 1]),
                                 (''Percentuale'', [FloatV 50])]\<rparr>],
            canvas = []\<rparr> 1"
    by blast
  have "deref s2 t2 = Some \<lparr>index = [IntV 1],
                      columns = [(''Attacco'', [ObjV ''dos'']),
                                 (''Numero di Esempi'', [IntV 1]),
                                 (''Percentuale'', [FloatV 50])]\<rparr>"
    unfolding r(3) by (simp add: deref_def)
  with h r(1,2) show ?thesis by blast
qed

text \<open>
  C4, as the code has it: on the scenario column \<^verbatim>\<open>["dos", "dos", "probe", "dos"]\<close> the
  summary has the rows (dos, 3, 75.0) and (probe, 1, 25.0) in that order; and for every
  table whose column holds one distinct value and no missing entry, the summary has one
  row, with that value, the row count of the table and the percentage 100.
\<close>
theorem scenario_and_single_value:
  "create_class_distribution_table (store_of (attack_table scenario_column)) 0 ''attack_type'' =
     Inr (1, \<lparr>heap = [attack_table scenario_column,
                       \<lparr>index = [IntV 1, IntV 2],
                        columns = [(''Attacco'', [ObjV ''dos'', ObjV ''probe'']),
                                   (''Numero di Esempi'', [IntV 3, IntV 1]),
                                   (''Percentuale'', [FloatV 75, FloatV 25])]\<rparr>],
              canvas = []\<rparr>) \<and>
   (\<forall>(T :: 'a dataframe) s df C col v.
      rectangular T \<longrightarrow> deref s df = Some T \<longrightarrow> getitem T C = Inr col \<longrightarrow>
      set col = {v} \<longrightarrow> v \<noteq> NaN \<longrightarrow>
      (\<exists>t s' tab.
         create_class_distribution_table s df C = Inr (t, s') \<and>
         deref s' t = Some tab \<and>
         index tab = [IntV 1] \<and>
         columns tab = [(''Attacco'', [v]),
                        (''Numero di Esempi'', [IntV (int (len T))]),
                        (''Percentuale'', [FloatV 100])]))"
proof (intro conjI allI impI)
  show "create_class_distribution_table (store_of (attack_table scenario_column)) 0 ''attack_type'' =
     Inr (1, \<lparr>heap = [attack_table scenario_column,
                       \<lparr>index = [IntV 1, IntV 2],
                        columns = [(''Attacco'', [ObjV ''dos'', ObjV ''probe'']),
                                   (''Numero di Esempi'', [IntV 3, IntV 1]),
                                   (''Percentuale'', [FloatV 75, FloatV 25])]\<rparr>],
              canvas = []\<rparr>)"
    by (rule create_scenario)
next
  fix T :: "'a dataframe" and s df C col v
  assume h: "rectangular T" "deref s df = Some T" "getitem T C = Inr col"
    "set col = {v}" "v \<noteq> NaN"
  let ?tab = "distribution_table (len T) col"
  have n: "length col = len T" by (rule getitem_length[OF h(1,3)])
  have "col \<noteq> []" using h(4) by auto
  then have pos: "0 < len T" using n by (cases col) auto
  have v: "value_counts col = [(v, len T)]"
    using value_counts_single[OF h(4,5)] n by simp
  have i: "index ?tab = [IntV 1]"
    by (simp add: index_distribution_table v upto.simps)
  have c: "columns ?tab = [(''Attacco'', [v]),
                        (''Numero di Esempi'', [IntV (int (len T))]),
                        (''Percentuale'', [FloatV 100])]"
    by (simp add: columns_distribution_table v percentage_of_all[OF pos])
  show "\<exists>t s' tab.
         create_class_distribution_table s df C = Inr (t, s') \<and>
         deref s' t = Some tab \<and>
         index tab = [IntV 1] \<and>
         columns tab = [(''Attacco'', [v]),
                        (''Numero di Esempi'', [IntV (int (len T))]),
                        (''Percentuale'', [FloatV 100])]"
    using create_result[OF h(2,3)] deref_new[of s ?tab] i c by blast
qed

text \<open>
  The hypotheses of the second part of \<open>scenario_and_single_value\<close> hold on a table with
  two rows \<^verbatim>\<open>dos\<close>.
\<close>

theorem scenario_and_single_value_witness:
  "rectangular (attack_table [ObjV ''dos'', ObjV ''dos'']) \<and>
   deref (store_of (attack_table [ObjV ''dos'', ObjV ''dos''])) 0 =
     Some (attack_table [ObjV ''dos'', ObjV ''dos'']) \<and>
   getitem (attack_table [ObjV ''dos'', ObjV ''dos'']) ''attack_type'' =
     Inr [ObjV ''dos'', ObjV ''dos''] \<and>
   set [ObjV ''dos'', ObjV ''dos''] = {ObjV ''dos''} \<and> ObjV ''dos'' \<noteq> NaN \<and>
   (\<exists>t s' tab.
      create_class_distribution_table (store_of (attack_table [ObjV ''dos'', ObjV ''dos''])) 0
        ''attack_type'' = Inr (t, s') \<and>
      deref s' t = Some tab \<and>
      index tab = [IntV 1] \<and>
      columns tab = [(''Attacco'', [ObjV ''dos'']),
                     (''Numero di Esempi'', [IntV 2]),
                     (''Percentuale'', [FloatV 100])])"
proof -
  let ?col = "[ObjV ''dos'', ObjV ''dos'']"
  have h1: "rectangular (attack_table ?col)" by (rule rectangular_attack_table)
  have h2: "deref (store_of (attack_table ?col)) 0 = Some (attack_table ?col)"
    by (rule deref_store_of)
  have h3: "getitem (attack_table ?col) ''attack_type'' = Inr ?col"
    by (rule getitem_attack_table)
  have h4: "set ?col = {ObjV ''dos''}" by simp
  have h5: "ObjV ''dos'' \<noteq> NaN" by simp
  have l: "int (len (attack_table ?col)) = 2" by (simp add: len_attack_table)
  from scenario_and_single_value[THEN conjunct2, rule_format, OF h1 h2 h3 h4 h5]
  show ?thesis using h1 h2 h3 h4 h5 unfolding l by blast
qed

text \<open>
  The second part of C4 as stated fails when entries are missing: the column with one
  \<^verbatim>\<open>dos\<close> and one missing entry has one distinct value and the percentage 50; the column
  of two missing entries gives a summary without rows.
\<close>

theorem single_value_counterexample:
  "create_class_distribution_table (store_of (attack_table [ObjV ''dos'', NaN])) 0 ''attack_type'' =
     Inr (1, \<lparr>heap = [attack_table [ObjV ''dos'', NaN],
                       \<lparr>index = [IntV 1],
                        columns = [(''Attacco'', [ObjV ''dos'']),
                                   (''Numero di Esempi'', [IntV 1]),
                                   (''Percentuale'', [FloatV 50])]\<rparr>],
              canvas = []\<rparr>) \<and>
   create_class_distribution_table (store_of (attack_table [NaN, NaN])) 0 ''attack_type'' =
     Inr (1, \<lparr>heap = [attack_table [NaN, NaN],
                       \<lparr>index = [],
                        columns = [(''Attacco'', []),
                                   (''Numero di Esempi'', []),
                                   (''Percentuale'', [])]\<rparr>],
              canvas = []\<rparr>)"
  using create_dos_nan create_all_missing by (simp add: store_of_def)

text \<open>
  C9, as the code has it: missing entries are left out of the counts, which add up to the
  number of non-missing entries; each percentage is computed against the full row count,
  within half a thousandth (plus the binary64 error) of the exact share
  \<open>100 * count / len(T)\<close>; with a missing entry the exact shares add up to less than 100,
  and the rounded percentages stay within half a thousandth per row of that sum.
\<close>
theorem missing_values_excluded:
  assumes "rectangular T" "deref s df = Some T" "getitem T C = Inr col"
  shows "\<exists>t s' tab counts pcts.
           create_class_distribution_table s df C = Inr (t, s') \<and>
           deref s' t = Some tab \<and>
           getitem tab ''Numero di Esempi'' = Inr (map (\<lambda>c. IntV (int c)) counts) \<and>
           getitem tab ''Percentuale'' = Inr (map FloatV pcts) \<and>
           sum_list counts = length (filter (\<lambda>c. c \<noteq> NaN) col) \<and>
           pcts = map (\<lambda>c. percentage_of c (len T)) counts \<and>
           (\<forall>c\<in>set counts.
              \<bar>percentage_of c (len T) - 100 * of_nat c / of_nat (len T)\<bar>
                \<le> 1 / 2000 + 1 / 10 ^ 12) \<and>
           (NaN \<in> set col \<longrightarrow>
              sum_list (map (\<lambda>c. 100 * of_nat c / of_nat (len T)) counts) < (100 :: rat)) \<and>
           \<bar>sum_list pcts - 100 * of_nat (sum_list counts) / of_nat (len T)\<bar>
             \<le> of_nat (length pcts) * (1 / 2000 + 1 / 10 ^ 12)"
proof -
  let ?tab = "distribution_table (len T) col"
  let ?counts = "map snd (value_counts col)"
  let ?pcts = "map (\<lambda>c. percentage_of c (len T)) ?counts"
  have n: "length col = len T" by (rule getitem_length[OF assms(1,3)])
  have 1: "sum_list ?counts = length (filter (\<lambda>c. c \<noteq> NaN) col)"
    by (simp add: sum_value_counts dropna_def)
  have le: "\<forall>c\<in>set ?counts. c \<le> len T"
    using count_in_table(1)[OF assms(1,3)] by blast
  have 2: "\<forall>c\<in>set ?counts.
              \<bar>percentage_of c (len T) - 100 * of_nat c / of_nat (len T)\<bar>
                \<le> 1 / 2000 + 1 / 10 ^ 12"
    using count_in_table[OF assms(1,3)] percentage_of_err by blast
  have 3: "NaN \<in> set col \<longrightarrow>
              sum_list (map (\<lambda>c. 100 * of_nat c / of_nat (len T)) ?counts) < (100 :: rat)"
  proof
    assume "NaN \<in> set col"
    then have "0 < count_list col NaN" using count_list_0_iff[of col NaN] by auto
    then have lt: "sum_list ?counts < len T"
      using length_dropna[of col] n by (simp add: sum_value_counts)
    then have pos: "(0::rat) < of_nat (len T)" by simp
    have "(of_nat (sum_list ?counts) :: rat) < of_nat (len T)" using lt by simp
    then have "100 * of_nat (sum_list ?counts) / of_nat (len T) < (100 :: rat)"
      using pos by (simp add: pos_divide_less_eq)
    then show "sum_list (map (\<lambda>c. 100 * of_nat c / of_nat (len T)) ?counts) < (100 :: rat)"
      by (simp only: sum_list_shares)
  qed
  have 4: "\<bar>sum_list ?pcts - 100 * of_nat (sum_list ?counts) / of_nat (len T)\<bar>
             \<le> of_nat (length ?pcts) * (1 / 2000 + 1 / 10 ^ 12)"
  proof (cases "len T = 0")
    case True
    then have "col = []" using n by simp
    then show ?thesis by (simp add: value_counts_Nil)
  next
    case False
    then have "0 < len T" by simp
    from pct_sum_err[OF le this] show ?thesis by simp
  qed
  show ?thesis
    using create_result[OF assms(2,3)] deref_new[of s ?tab]
      getitem_distribution_table(2,3)[of "len T" col] 1 2 3 4
    by blast
qed

text \<open>
  The hypotheses of \<open>missing_values_excluded\<close> hold on the table with the rows
  \<^verbatim>\<open>dos\<close> and missing.
\<close>

theorem missing_values_excluded_witness:
  "rectangular (attack_table [ObjV ''dos'', NaN]) \<and>
   deref (store_of (attack_table [ObjV ''dos'', NaN])) 0 = Some (attack_table [ObjV ''dos'', NaN]) \<and>
   getitem (attack_table [ObjV ''dos'', NaN]) ''attack_type'' = Inr [ObjV ''dos'', NaN] \<and>
   NaN \<in> set [ObjV ''dos'', NaN] \<and>
   (\<exists>t s' tab counts pcts.
      create_class_distribution_table (store_of (attack_table [ObjV ''dos'', NaN])) 0
        ''attack_type'' = Inr (t, s') \<and>
      deref s' t = Some tab \<and>
      getitem tab ''Numero di Esempi'' = Inr (map (\<lambda>c. IntV (int c)) counts) \<and>
      getitem tab ''Percentuale'' = Inr (map FloatV pcts) \<and>
      sum_list counts = 1 \<and>
      pcts = map (\<lambda>c. percentage_of c 2) counts \<and>
      (\<forall>c\<in>set counts. \<bar>percentage_of c 2 - 100 * of_nat c / 2\<bar> \<le> 1 / 2000 + 1 / 10 ^ 12) \<and>
      sum_list (map (\<lambda>c. 100 * of_nat c / 2) counts) < (100 :: rat) \<and>
      \<bar>sum_list pcts - 100 * of_nat (sum_list counts) / 2\<bar>
        \<le> of_nat (length pcts) * (1 / 2000 + 1 / 10 ^ 12))"
proof -
  let ?col = "[ObjV ''dos'', NaN]"
  have h1: "rectangular (attack_table ?col)" by (rule rectangular_attack_table)
  have h2: "deref (store_of (attack_table ?col)) 0 = Some (attack_table ?col)"
    by (rule deref_store_of)
  have h3: "getitem (attack_table ?col) ''attack_type'' = Inr ?col"
    by (rule getitem_attack_table)
  have h4: "NaN \<in> set ?col" by simp
  have l: "len (attack_table ?col) = 2" "length (filter (\<lambda>c. c \<noteq> NaN) ?col) = 1"
    by (simp_all add: len_attack_table)
  from missing_values_excluded[OF h1 h2 h3]
  show ?thesis using h1 h2 h3 h4 unfolding l by simp
qed

text \<open>
  C9 as stated fails after rounding: with 599 different values and one missing entry in
  600 rows, every share \<open>100 / 600\<close> is rounded up to 0.167, and the 599 percentages add
  up to more than 100.
\<close>

theorem rounded_sum_counterexample:
  "create_class_distribution_table (store_of (attack_table distinct_column)) 0 ''attack_type'' =
   Inr (1, \<lparr>heap = [attack_table distinct_column,
                     \<lparr>index = arange 1 600,
                      columns = [(''Attacco'', map ObjV [0..<599]),
                                 (''Numero di Esempi'', replicate 599 (IntV 1)),
                                 (''Percentuale'',
                                    replicate 599
                                      (FloatV (6016809102166983 / 36028797018963968)))]\<rparr>],
            canvas = []\<rparr>) \<and>
   NaN \<in> set distinct_column \<and>
   len (attack_table distinct_column) = 600 \<and>
   100 < sum_list (replicate 599 (6016809102166983 / 36028797018963968 :: rat))"
  by (simp add: create_distinct len_attack_table sum_list_replicate) (simp add: distinct_column_def)





text \<open>
  C7, as the code has it. Leaving a keyword out is the same as passing its default: the
  figure size is (12, 7) for the bar chart, (10, 8) for the pie chart and (15, 7) for the
  grouped bar chart and the line plot; the rotation is 45 for the two bar charts and 90 for
  the line plot; the explode threshold is the double nearest to 0.05; the colour map is
  \<^verbatim>\<open>jet\<close>.
\<close>
theorem keyword_defaults:
  "plot_class_distribution s df column title xlabel ylabel None color_map rotation =
     plot_class_distribution s df column title xlabel ylabel (Some (12, 7)) color_map rotation \<and>
   plot_class_distribution s df column title xlabel ylabel figsize None rotation =
     plot_class_distribution s df column title xlabel ylabel figsize (Some ''jet'') rotation \<and>
   plot_class_distribution s df column title xlabel ylabel figsize color_map None =
     plot_class_distribution s df column title xlabel ylabel figsize color_map (Some 45) \<and>
   plot_pie_chart_distribution s df column title None explode_threshold =
     plot_pie_chart_distribution s df column title (Some (10, 8)) explode_threshold \<and>
   plot_pie_chart_distribution s df column title figsize None =
     plot_pie_chart_distribution s df column title figsize (Some (lit (5 / 100))) \<and>
   plot_grouped_bar s df column sub_category count title xlabel ylabel None rotation =
     plot_grouped_bar s df column sub_category count title xlabel ylabel (Some (15, 7)) rotation \<and>
   plot_grouped_bar s df column sub_category count title xlabel ylabel figsize None =
     plot_grouped_bar s df column sub_category count title xlabel ylabel figsize (Some 45) \<and>
   plot_line_distribution s df column None rotation grid line_title line_xlabel line_ylabel =
     plot_line_distribution s df column (Some (15, 7)) rotation grid line_title line_xlabel
       line_ylabel \<and>
   plot_line_distribution s df column figsize None grid line_title line_xlabel line_ylabel =
     plot_line_distribution s df column figsize (Some 90) grid line_title line_xlabel
       line_ylabel"
proof (intro conjI)
  show "plot_class_distribution s df column title xlabel ylabel None color_map rotation =
     plot_class_distribution s df column title xlabel ylabel (Some (12, 7)) color_map rotation"
    by (simp add: plot_class_distribution_def kwarg_def)
  show "plot_class_distribution s df column title xlabel ylabel figsize None rotation =
     plot_class_distribution s df column title xlabel ylabel figsize (Some ''jet'') rotation"
    by (simp add: plot_class_distribution_def kwarg_def)
  show "plot_class_distribution s df column title xlabel ylabel figsize color_map None =
     plot_class_distribution s df column title xlabel ylabel figsize color_map (Some 45)"
    by (simp add: plot_class_distribution_def kwarg_def)
  show "plot_pie_chart_distribution s df column title None explode_threshold =
     plot_pie_chart_distribution s df column title (Some (10, 8)) explode_threshold"
    by (simp add: plot_pie_chart_distribution_def kwarg_def)
  show "plot_pie_chart_distribution s df column title figsize None =
     plot_pie_chart_distribution s df column title figsize (Some (lit (5 / 100)))"
    by (simp add: plot_pie_chart_distribution_def kwarg_def)
  show "plot_grouped_bar s df column sub_category count title xlabel ylabel None rotation =
     plot_grouped_bar s df column sub_category count title xlabel ylabel (Some (15, 7)) rotation"
    by (simp add: plot_grouped_bar_def kwarg_def)
  show "plot_grouped_bar s df column sub_category count title xlabel ylabel figsize None =
     plot_grouped_bar s df column sub_category count title xlabel ylabel figsize (Some 45)"
    by (simp add: plot_grouped_bar_def kwarg_def)
  show "plot_line_distribution s df column None rotation grid line_title line_xlabel line_ylabel =
     plot_line_distribution s df column (Some (15, 7)) rotation grid line_title line_xlabel
       line_ylabel"
    by (simp add: plot_line_distribution_def kwarg_def)
  show "plot_line_distribution s df column figsize None grid line_title line_xlabel line_ylabel =
     plot_line_distribution s df column figsize (Some 90) grid line_title line_xlabel
       line_ylabel"
    by (simp add: plot_line_distribution_def kwarg_def)
qed

text \<open>
  C7 as stated fails for the pie chart: called without a figure size on the table of the
  scenario, it opens a figure of size (10, 8), which is neither (12, 7) nor (15, 7).
\<close>

theorem pie_figsize_counterexample:
  "plot_pie_chart_distribution (store_of (attack_table scenario_column)) 0 ''attack_type''
     ''Attacks'' None None =
   Inr \<lparr>heap = [attack_table scenario_column],
        canvas = [Figure (10, 8),
                  Pie [3, 1] [ObjV ''dos'', ObjV ''probe''] [0, 0] ''%1.1f%%'' 140,
                  Title ''Attacks'',
                  Show]\<rparr> \<and>
   (10, 8) \<noteq> (12, 7 :: int) \<and> (10, 8) \<noteq> (15, 7 :: int)"
  by (simp add: pie_scenario)

text \<open>
  C8: whichever of the six functions is called, when the call returns the table passed to
  it is in the store as it was before the call, with the same row labels, columns and
  values; for \<^verbatim>\<open>find_unique_values\<close> this holds of both tables.
\<close>
theorem input_table_unchanged:
  "(create_class_distribution_table s df column = Inr (t, s1) \<longrightarrow> deref s1 df = deref s df) \<and>
   (find_unique_values s df df2 column df1_name df2_name = Inr (e, s2) \<longrightarrow>
      deref s2 df = deref s df \<and> deref s2 df2 = deref s df2) \<and>
   (plot_class_distribution s df column title xlabel ylabel figsize color_map rotation = Inr s3 \<longrightarrow>
      deref s3 df = deref s df) \<and>
   (plot_pie_chart_distribution s df column title figsize explode_threshold = Inr s4 \<longrightarrow>
      deref s4 df = deref s df) \<and>
   (plot_grouped_bar s df column sub_category count title xlabel ylabel figsize rotation = Inr s5 \<longrightarrow>
      deref s5 df = deref s df) \<and>
   (plot_line_distribution s df column figsize rotation grid line_title line_xlabel line_ylabel
      = Inr s6 \<longrightarrow> deref s6 df = deref s df)"
proof (intro conjI impI)
  assume "create_class_distribution_table s df column = Inr (t, s1)"
  then show "deref s1 df = deref s df" by (rule create_deref)
next
  assume a: "find_unique_values s df df2 column df1_name df2_name = Inr (e, s2)"
  show "deref s2 df = deref s df" by (rule find_deref(1)[OF a])
  show "deref s2 df2 = deref s df2" by (rule find_deref(2)[OF a])
next
  assume "plot_class_distribution s df column title xlabel ylabel figsize color_map rotation = Inr s3"
  then have "heap s3 = heap s" by (rule plot_class_distribution_heap)
  then show "deref s3 df = deref s df" by (rule deref_heap)
next
  assume "plot_pie_chart_distribution s df column title figsize explode_threshold = Inr s4"
  then have "heap s4 = heap s" by (rule plot_pie_chart_distribution_heap)
  then show "deref s4 df = deref s df" by (rule deref_heap)
next
  assume "plot_grouped_bar s df column sub_category count title xlabel ylabel figsize rotation = Inr s5"
  then have "heap s5 = heap s" by (rule plot_grouped_bar_heap)
  then show "deref s5 df = deref s df" by (rule deref_heap)
next
  assume "plot_line_distribution s df column figsize rotation grid line_title line_xlabel line_ylabel
      = Inr s6"
  then show "deref s6 df = deref s df" by (rule plot_line_distribution_deref)
qed

text \<open>
  Each of the six calls returns on a store of two tables of three rows, and leaves the
  tables passed to it as they were.
\<close>

theorem input_table_unchanged_witness:
  "(\<exists>t s1. create_class_distribution_table flows_store 0 ''attack_type'' = Inr (t, s1) \<and>
       deref s1 0 = Some flows_table) \<and>
   (\<exists>e s2. find_unique_values flows_store 0 1 ''attack_type'' None None = Inr (e, s2) \<and>
       deref s2 0 = Some flows_table \<and> deref s2 1 = Some flows_table) \<and>
   (\<exists>s3. plot_class_distribution flows_store 0 ''attack_type'' ''Attacks'' ''attack'' ''rows''
            None None None = Inr s3 \<and> deref s3 0 = Some flows_table) \<and>
   (\<exists>s4. plot_pie_chart_distribution flows_store 0 ''attack_type'' ''Attacks'' None None = Inr s4 \<and>
       deref s4 0 = Some flows_table) \<and>
   (\<exists>s5. plot_grouped_bar flows_store 0 ''attack_type'' ''protocol_type'' ''count'' ''Attacks''
            ''attack'' ''rows'' None None = Inr s5 \<and> deref s5 0 = Some flows_table) \<and>
   (\<exists>s6. plot_line_distribution flows_store 0 ''attack_type'' None None None None None None
            = Inr s6 \<and> deref s6 0 = Some flows_table)"
proof -
  note d = deref_flows_store
  note g = getitem_flows_table
  have d1: "deref flows_store 1 = Some flows_table" using d(2) by simp
  obtain t s1 where 1:
    "create_class_distribution_table flows_store 0 ''attack_type'' = Inr (t, s1)"
    using create_result[OF d(1) g(1)] by blast
  obtain e s2 where 2:
    "find_unique_values flows_store 0 1 ''attack_type'' None None = Inr (e, s2)"
    using find_result[OF d(1) g(1) d1 g(1)] by blast
  obtain s3 where 3:
    "plot_class_distribution flows_store 0 ''attack_type'' ''Attacks'' ''attack'' ''rows''
       None None None = Inr s3"
    by (simp add: plot_class_distribution_def d g Let_def)
  obtain s4 where 4:
    "plot_pie_chart_distribution flows_store 0 ''attack_type'' ''Attacks'' None None = Inr s4"
    by (simp add: plot_pie_chart_distribution_def d g Let_def)
  obtain s5 where 5:
    "plot_grouped_bar flows_store 0 ''attack_type'' ''protocol_type'' ''count'' ''Attacks''
       ''attack'' ''rows'' None None = Inr s5"
    by (simp add: plot_grouped_bar_def d g Let_def)
  obtain s6 where 6:
    "plot_line_distribution flows_store 0 ''attack_type'' None None None None None None = Inr s6"
    apply (simp only: plot_line_distribution_def d g option.case sum.case)
    apply (simp add: Let_def new_def set_columns_def deref_def reset_index_def)
    done
  note u = input_table_unchanged[where s = flows_store and df = 0 and ?df2.0 = 1
      and column = "''attack_type''" and t = t and ?s1.0 = s1 and e = e and ?s2.0 = s2
      and title = "''Attacks''" and xlabel = "''attack''" and ylabel = "''rows''"
      and figsize = None and color_map = None and rotation = None and ?s3.0 = s3
      and explode_threshold = None and ?s4.0 = s4
      and sub_category = "''protocol_type''" and count = "''count''" and ?s5.0 = s5
      and grid = None and line_title = None and line_xlabel = None and line_ylabel = None
      and ?s6.0 = s6 and df1_name = None and df2_name = None]
  from u 1 2 3 4 5 6 d d1 show ?thesis by simp
qed

end
